theory Spec2Isabelle
  imports Main "HOL-Library.Word"
begin

unbundle bit_operations_syntax

section \<open>Runtime panics and text formatting\<close>

text \<open>
  The Go runtime panics that the modelled code can raise. A panic is a value: a function
  that may panic returns \<open>panic + 'a\<close>, with \<open>Inl\<close> for the panic.
\<close>

datatype panic =
    IndexOutOfRange nat nat     \<comment> \<open>index, length of the array\<close>
  | SliceOutOfRange nat nat     \<comment> \<open>upper bound of the slice expression, length\<close>
  | SendOnClosedChannel
  | CloseOfClosedChannel

text \<open>Decimal formatting of an integer, as the verb \<open>%d\<close> of \<open>fmt.Sprintf\<close> prints it.\<close>

definition digit_char :: "nat \<Rightarrow> char" where
  "digit_char d = ''0123456789'' ! (d mod 10)"

fun digits :: "nat \<Rightarrow> string" where
  "digits n = (if n < 10 then [digit_char n] else digits (n div 10) @ [digit_char n])"

declare digits.simps [simp del]

definition Sprintf_d :: "int \<Rightarrow> string" where
  "Sprintf_d i = (if i < 0 then CHR ''-'' # digits (nat (- i)) else digits (nat i))"

definition panic_text :: "panic \<Rightarrow> string" where
  "panic_text p = (case p of
      IndexOutOfRange i n \<Rightarrow>
        ''runtime error: index out of range ['' @ Sprintf_d (int i) @ ''] with length '' @ Sprintf_d (int n)
    | SliceOutOfRange i n \<Rightarrow>
        ''runtime error: slice bounds out of range [:'' @ Sprintf_d (int i) @ ''] with length '' @ Sprintf_d (int n)
    | SendOnClosedChannel \<Rightarrow> ''send on closed channel''
    | CloseOfClosedChannel \<Rightarrow> ''close of closed channel'')"

text \<open>
  The verb \<open>%s\<close> applied to an operand with a \<open>String\<close> method: the package \<open>fmt\<close>
  calls the method and, when it panics, recovers and prints the panic in place of the
  operand. So a panic of a \<open>String\<close> method inside a log call does not unwind the caller.
\<close>

definition fmt_Stringer :: "panic + string \<Rightarrow> string" where
  "fmt_Stringer r = (case r of
      Inr s \<Rightarrow> s
    | Inl p \<Rightarrow> ''%!s(PANIC=String method: '' @ panic_text p @ '')'')"

section \<open>Actions and states of the shard state machine\<close>

datatype shardStateAction =
    actionBid
  | actionRejected
  | actionFail
  | actionRun
  | actionPublish

text \<open>The value \<open>iota\<close> gives each constant of the \<open>const\<close> block.\<close>

fun shardStateAction_iota :: "shardStateAction \<Rightarrow> nat" where
  "shardStateAction_iota actionBid = 0"
| "shardStateAction_iota actionRejected = 1"
| "shardStateAction_iota actionFail = 2"
| "shardStateAction_iota actionRun = 3"
| "shardStateAction_iota actionPublish = 4"

definition shardStateAction_names :: "string list" where
  "shardStateAction_names = [''ActionBid'', ''ActionRejected'', ''ActionFail'', ''ActionRun'']"

text \<open>Indexing a Go array checks the bound and panics outside it.\<close>

definition array_index :: "'a list \<Rightarrow> nat \<Rightarrow> panic + 'a" where
  "array_index xs i = (if i < length xs then Inr (xs ! i) else Inl (IndexOutOfRange i (length xs)))"

definition shardStateAction_String :: "shardStateAction \<Rightarrow> panic + string" where
  "shardStateAction_String a = array_index shardStateAction_names (shardStateAction_iota a)"

datatype shardStateType =
    shardInitialState
  | shardEnqueued
  | shardBidding
  | shardRunning
  | shardPublishingToVerifier
  | shardVerifyingResults
  | shardPublishingToRequester
  | shardError
  | shardCompleted

fun shardStateType_iota :: "shardStateType \<Rightarrow> nat" where
  "shardStateType_iota shardInitialState = 0"
| "shardStateType_iota shardEnqueued = 1"
| "shardStateType_iota shardBidding = 2"
| "shardStateType_iota shardRunning = 3"
| "shardStateType_iota shardPublishingToVerifier = 4"
| "shardStateType_iota shardVerifyingResults = 5"
| "shardStateType_iota shardPublishingToRequester = 6"
| "shardStateType_iota shardError = 7"
| "shardStateType_iota shardCompleted = 8"

definition shardStateType_names :: "string list" where
  "shardStateType_names =
     [''InitialState'', ''Enqueued'', ''Bidding'', ''Running'', ''PublishingToVerifier'',
      ''VerifyingResults'', ''PublishingToRequester'', ''Error'', ''Completed'']"

definition shardStateType_String :: "shardStateType \<Rightarrow> panic + string" where
  "shardStateType_String s = array_index shardStateType_names (shardStateType_iota s)"

section \<open>Shards, requests and the state machine record\<close>

type_synonym byte = "8 word"

text \<open>
  The part of a job that the modelled code reads: its ID and, of its spec, the storage
  specs of the contexts and of the outputs, and the Docker image.
\<close>

record StorageSpec =
  Engine :: string
  spec_Name :: string
  spec_Path :: string

record JobSpec =
  Contexts :: "StorageSpec list"
  Outputs :: "StorageSpec list"
  Docker_Image :: string

record JobShard =
  Job_ID :: string
  Job_Spec :: JobSpec
  Index :: int

text \<open>
  Modelled from the spec: the method \<open>ID\<close> of \<open>model.JobShard\<close> (package \<open>model\<close> is not
  among the sources) - "stable string identifier for one shard of one job, globally unique,
  derived from (jobID, shardIndex)". The same text stands for the shard under \<open>%s\<close>.
\<close>

definition JobShard_ID :: "JobShard \<Rightarrow> string" where
  "JobShard_ID shard = Job_ID shard @ '':'' @ Sprintf_d (Index shard)"

record 'r CapacityManagerItem =
  item_Shard :: JobShard
  Requirements :: 'r

record shardStateRequest =
  action :: shardStateAction
  failureReason :: string

text \<open>
  The unbuffered request channel: whether it is closed, and the requests of the senders
  blocked on it, in the order in which the state machine will receive them.
\<close>

record chan =
  closed :: bool
  pending :: "shardStateRequest list"

text \<open>
  The compute node as the state machine uses it: its ID and the calls it offers (with those
  of its controller). Each returns the error message, \<open>None\<close> for \<open>nil\<close>; \<open>RunShard\<close>
  returns the error or the proposal.
\<close>

record ComputeNode =
  node_ID :: string
  BidOnJob :: "JobShard \<Rightarrow> string option"
  RunShard :: "JobShard \<Rightarrow> string + byte list"
  controller_ShardExecutionFinished :: "string \<Rightarrow> int \<Rightarrow> string \<Rightarrow> byte list \<Rightarrow> string option"
  PublishShard :: "JobShard \<Rightarrow> string option"
  controller_ShardError :: "string \<Rightarrow> int \<Rightarrow> string \<Rightarrow> string option"

record 'r shardStateMachine =
  Shard :: JobShard
  capacity :: "'r CapacityManagerItem"
  node :: ComputeNode
  req :: chan
  currentState :: shardStateType
  previousState :: shardStateType
  resultProposal :: "byte list"
  bidSent :: bool
  errorMsg :: string

definition newStateMachine :: "JobShard \<Rightarrow> ComputeNode \<Rightarrow> 'r \<Rightarrow> 'r shardStateMachine" where
  "newStateMachine shard n requirements =
     \<lparr> Shard = shard,
       capacity = \<lparr> item_Shard = shard, Requirements = requirements \<rparr>,
       node = n,
       req = \<lparr> closed = False, pending = [] \<rparr>,
       currentState = shardInitialState,
       previousState = shardInitialState,
       resultProposal = [],
       bidSent = False,
       errorMsg = [] \<rparr>"

definition shardStateMachine_String :: "'r shardStateMachine \<Rightarrow> panic + string" where
  "shardStateMachine_String m =
     (if 8 \<le> length (node_ID (node m))
      then Inr (''['' @ take 8 (node_ID (node m)) @ ''] shard: '' @ JobShard_ID (Shard m)
                @ '' at state: '' @ fmt_Stringer (shardStateType_String (currentState m)))
      else Inl (SliceOutOfRange 8 (length (node_ID (node m)))))"

section \<open>What a run of the state machine leaves behind\<close>

datatype call =
    BidOnJob_call JobShard
  | RunShard_call JobShard
  | ShardExecutionFinished_call string int string "byte list"
  | PublishShard_call JobShard
  | ShardError_call string int string

datatype log_level = DebugLevel | InfoLevel | WarnLevel | ErrorLevel

fun is_ShardExecutionFinished_call :: "call \<Rightarrow> bool" where
  "is_ShardExecutionFinished_call (ShardExecutionFinished_call j i msg p) = True"
| "is_ShardExecutionFinished_call _ = False"

fun is_PublishShard_call :: "call \<Rightarrow> bool" where
  "is_PublishShard_call (PublishShard_call s) = True"
| "is_PublishShard_call _ = False"

fun is_ShardError_call :: "call \<Rightarrow> bool" where
  "is_ShardError_call (ShardError_call j i msg) = True"
| "is_ShardError_call _ = False"

text \<open>
  A machine together with the calls it has made on its node and controller, oldest first,
  the states it has entered, oldest first, and the lines it has logged.
\<close>

record 'r world =
  fsm :: "'r shardStateMachine"
  calls :: "call list"
  entered :: "shardStateType list"
  log :: "(log_level \<times> string) list"

definition Msgf :: "log_level \<Rightarrow> string \<Rightarrow> 'r world \<Rightarrow> 'r world" where
  "Msgf level msg w = w\<lparr> log := log w @ [(level, msg)] \<rparr>"

definition called :: "call \<Rightarrow> 'r world \<Rightarrow> 'r world" where
  "called c w = w\<lparr> calls := calls w @ [c] \<rparr>"

definition set_errorMsg :: "string \<Rightarrow> 'r world \<Rightarrow> 'r world" where
  "set_errorMsg e w = w\<lparr> fsm := (fsm w)\<lparr> errorMsg := e \<rparr> \<rparr>"

definition set_pending :: "shardStateRequest list \<Rightarrow> 'r world \<Rightarrow> 'r world" where
  "set_pending rs w = w\<lparr> fsm := (fsm w)\<lparr> req := (req (fsm w))\<lparr> pending := rs \<rparr> \<rparr> \<rparr>"

section \<open>Sending a request\<close>

definition chan_send :: "chan \<Rightarrow> shardStateRequest \<Rightarrow> panic + chan" where
  "chan_send ch r =
     (if closed ch then Inl SendOnClosedChannel else Inr (ch\<lparr> pending := pending ch @ [r] \<rparr>))"

definition ignoring_after_closed :: "'r shardStateMachine \<Rightarrow> shardStateRequest \<Rightarrow> string" where
  "ignoring_after_closed m request =
     fmt_Stringer (shardStateMachine_String m) @ '' ignoring action after channel closed: ''
       @ fmt_Stringer (shardStateAction_String (action request))"

text \<open>
  \<open>sendRequest\<close> sends on the channel under a deferred \<open>recover\<close>: a panic of the send is
  caught and logged, and the function returns normally. The result is \<open>Inl\<close> for a panic
  that escapes to the caller.
\<close>

definition sendRequest :: "shardStateRequest \<Rightarrow> 'r world \<Rightarrow> panic + 'r world" where
  "sendRequest request w =
     (case chan_send (req (fsm w)) request of
        Inl r \<Rightarrow> Inr (Msgf WarnLevel (ignoring_after_closed (fsm w) request) w)
      | Inr ch \<Rightarrow> Inr (w\<lparr> fsm := (fsm w)\<lparr> req := ch \<rparr> \<rparr>))"

definition Bid :: "'r world \<Rightarrow> panic + 'r world" where
  "Bid w = sendRequest \<lparr> action = actionBid, failureReason = [] \<rparr> w"

definition BidRejected :: "'r world \<Rightarrow> panic + 'r world" where
  "BidRejected w = sendRequest \<lparr> action = actionRejected, failureReason = [] \<rparr> w"

definition Execute :: "'r world \<Rightarrow> panic + 'r world" where
  "Execute w = sendRequest \<lparr> action = actionRun, failureReason = [] \<rparr> w"

definition Publish :: "'r world \<Rightarrow> panic + 'r world" where
  "Publish w = sendRequest \<lparr> action = actionPublish, failureReason = [] \<rparr> w"

definition Fail :: "string \<Rightarrow> 'r world \<Rightarrow> panic + 'r world" where
  "Fail reason w = sendRequest \<lparr> action = actionFail, failureReason = reason \<rparr> w"

section \<open>The state functions\<close>

text \<open>
  A state function returns the next state function, or \<open>nil\<close> to stop. The functions are
  named by a tag; \<open>None\<close> is \<open>nil\<close>.
\<close>

datatype StateFn =
    EnqueuedState
  | BiddingState
  | RunningState
  | PublishingToVerifierState
  | VerifyingResultsState
  | PublishingToRequesterState
  | ErrorState
  | CompletedState

text \<open>
  A state function either returns, or blocks on the channel because no sender is left:
  \<open>Blocked\<close> is the machine waiting in that state, as far as it has got.
\<close>

datatype 'r step =
    Blocked "'r world"
  | Next "StateFn option" "'r world"

definition transitionedTo :: "shardStateType \<Rightarrow> 'r world \<Rightarrow> 'r world" where
  "transitionedTo newState w =
     (let m = fsm w;
          w1 = Msgf DebugLevel
                 (fmt_Stringer (shardStateMachine_String m) @ '' transitioning from ''
                  @ fmt_Stringer (shardStateType_String (currentState m)) @ '' -> ''
                  @ fmt_Stringer (shardStateType_String newState)) w
      in w1\<lparr> fsm := m\<lparr> previousState := currentState m, currentState := newState \<rparr>,
             entered := entered w1 @ [newState] \<rparr>)"

definition ignoring_unknown :: "shardStateRequest \<Rightarrow> 'r world \<Rightarrow> 'r world" where
  "ignoring_unknown r w =
     Msgf WarnLevel
       (fmt_Stringer (shardStateMachine_String (fsm w)) @ '' ignoring unknown action: ''
        @ fmt_Stringer (shardStateAction_String (action r))) w"

text \<open>
  The receive loop of each waiting state runs over the requests pending on the channel;
  when it returns, the requests it has not received stay pending.
\<close>

fun biddingState_loop :: "'r world \<Rightarrow> shardStateRequest list \<Rightarrow> 'r step" where
  "biddingState_loop w [] = Blocked (set_pending [] w)"
| "biddingState_loop w (r # rs) =
     (case action r of
        actionRun \<Rightarrow> Next (Some RunningState) (set_pending rs w)
      | actionRejected \<Rightarrow> Next (Some CompletedState) (set_pending rs w)
      | actionFail \<Rightarrow> Next (Some ErrorState) (set_pending rs (set_errorMsg (failureReason r) w))
      | _ \<Rightarrow> biddingState_loop (ignoring_unknown r w) rs)"

definition biddingState :: "'r world \<Rightarrow> 'r step" where
  "biddingState w =
     (let w1 = transitionedTo shardBidding w in biddingState_loop w1 (pending (req (fsm w1))))"

fun enqueuedState_loop :: "'r world \<Rightarrow> shardStateRequest list \<Rightarrow> 'r step" where
  "enqueuedState_loop w [] = Blocked (set_pending [] w)"
| "enqueuedState_loop w (r # rs) =
     (case action r of
        actionBid \<Rightarrow>
          (let w1 = called (BidOnJob_call (Shard (fsm w))) w in
           case BidOnJob (node (fsm w)) (Shard (fsm w)) of
             Some err \<Rightarrow> Next (Some ErrorState) (set_pending rs (set_errorMsg err w1))
           | None \<Rightarrow>
               Next (Some BiddingState) (set_pending rs (w1\<lparr> fsm := (fsm w1)\<lparr> bidSent := True \<rparr> \<rparr>)))
      | actionFail \<Rightarrow> Next (Some ErrorState) (set_pending rs (set_errorMsg (failureReason r) w))
      | _ \<Rightarrow> enqueuedState_loop (ignoring_unknown r w) rs)"

definition enqueuedState :: "'r world \<Rightarrow> 'r step" where
  "enqueuedState w =
     (let w1 = transitionedTo shardEnqueued w in enqueuedState_loop w1 (pending (req (fsm w1))))"

definition runningState :: "'r world \<Rightarrow> 'r step" where
  "runningState w =
     (let w1 = transitionedTo shardRunning w;
          w2 = called (RunShard_call (Shard (fsm w1))) w1
      in case RunShard (node (fsm w1)) (Shard (fsm w1)) of
           Inr proposal \<Rightarrow>
             Next (Some PublishingToVerifierState) (w2\<lparr> fsm := (fsm w2)\<lparr> resultProposal := proposal \<rparr> \<rparr>)
         | Inl err \<Rightarrow> Next (Some ErrorState) (set_errorMsg err w2))"

definition publishingToVerifierState :: "'r world \<Rightarrow> 'r step" where
  "publishingToVerifierState w =
     (let w1 = transitionedTo shardPublishingToVerifier w;
          m = fsm w1;
          msg = ''Got results proposal of length: '' @ Sprintf_d (int (length (resultProposal m)));
          w2 = called (ShardExecutionFinished_call (Job_ID (Shard m)) (Index (Shard m)) msg
                         (resultProposal m)) w1
      in case controller_ShardExecutionFinished (node m) (Job_ID (Shard m)) (Index (Shard m)) msg
                (resultProposal m) of
           Some err \<Rightarrow> Next (Some ErrorState) (set_errorMsg err w2)
         | None \<Rightarrow> Next (Some VerifyingResultsState) w2)"

fun verifyingResultsState_loop :: "'r world \<Rightarrow> shardStateRequest list \<Rightarrow> 'r step" where
  "verifyingResultsState_loop w [] = Blocked (set_pending [] w)"
| "verifyingResultsState_loop w (r # rs) =
     (case action r of
        actionPublish \<Rightarrow> Next (Some PublishingToRequesterState) (set_pending rs w)
      | actionFail \<Rightarrow> Next (Some ErrorState) (set_pending rs (set_errorMsg (failureReason r) w))
      | _ \<Rightarrow> verifyingResultsState_loop (ignoring_unknown r w) rs)"

definition verifyingResultsState :: "'r world \<Rightarrow> 'r step" where
  "verifyingResultsState w =
     (let w1 = transitionedTo shardVerifyingResults w
      in verifyingResultsState_loop w1 (pending (req (fsm w1))))"

definition publishingToRequesterState :: "'r world \<Rightarrow> 'r step" where
  "publishingToRequesterState w =
     (let w1 = transitionedTo shardPublishingToRequester w;
          w2 = called (PublishShard_call (Shard (fsm w1))) w1
      in case PublishShard (node (fsm w1)) (Shard (fsm w1)) of
           Some err \<Rightarrow> Next (Some ErrorState) (set_errorMsg err w2)
         | None \<Rightarrow> Next (Some CompletedState) w2)"

text \<open>
  The Error state logs its message, reports it with \<open>ShardError\<close> if a bid was sent, and
  goes to Completed whatever the report returns. (The message is logged as it is; the
  source passes it to \<open>Msgf\<close> as the format, which prints it unchanged unless it holds a
  per cent sign.)
\<close>

definition errorState :: "'r world \<Rightarrow> 'r step" where
  "errorState w =
     (let w1 = transitionedTo shardError w;
          m = fsm w1;
          errMessage = fmt_Stringer (shardStateMachine_String m) @ '' error completing job due to ''
                       @ errorMsg m;
          w2 = Msgf ErrorLevel errMessage w1
      in if bidSent m
         then (let w3 = called (ShardError_call (Job_ID (Shard m)) (Index (Shard m)) errMessage) w2
               in case controller_ShardError (node m) (Job_ID (Shard m)) (Index (Shard m)) errMessage of
                    Some err \<Rightarrow>
                      Next (Some CompletedState)
                        (Msgf ErrorLevel
                           (fmt_Stringer (shardStateMachine_String m)
                            @ '' failed to report error of job due to '' @ err) w3)
                  | None \<Rightarrow> Next (Some CompletedState) w3)
         else Next (Some CompletedState) w2)"

definition completedState :: "'r world \<Rightarrow> 'r step" where
  "completedState w = Next None (transitionedTo shardCompleted w)"

fun call_state :: "StateFn \<Rightarrow> 'r world \<Rightarrow> 'r step" where
  "call_state EnqueuedState w = enqueuedState w"
| "call_state BiddingState w = biddingState w"
| "call_state RunningState w = runningState w"
| "call_state PublishingToVerifierState w = publishingToVerifierState w"
| "call_state VerifyingResultsState w = verifyingResultsState w"
| "call_state PublishingToRequesterState w = publishingToRequesterState w"
| "call_state ErrorState w = errorState w"
| "call_state CompletedState w = completedState w"

section \<open>Running a machine\<close>

text \<open>
  Closing the channel wakes every sender blocked on it with the panic of a send on a closed
  channel, which each of them recovers and logs in \<open>sendRequest\<close>; closing a closed channel
  panics.
\<close>

definition close_req :: "'r world \<Rightarrow> panic + 'r world" where
  "close_req w =
     (if closed (req (fsm w)) then Inl CloseOfClosedChannel
      else Inr (foldl (\<lambda>w' r. Msgf WarnLevel (ignoring_after_closed (fsm w) r) w')
                  (w\<lparr> fsm := (fsm w)\<lparr> req := \<lparr> closed = True, pending = [] \<rparr> \<rparr> \<rparr>)
                  (pending (req (fsm w)))))"

datatype 'r run_result =
    Returned "'r world"            \<comment> \<open>the loop ended and the channel was closed\<close>
  | Waiting StateFn "'r world"     \<comment> \<open>blocked in this state function, no sender left\<close>
  | Panicked panic "'r world"

fun StateFn_rank :: "StateFn option \<Rightarrow> nat" where
  "StateFn_rank (Some EnqueuedState) = 8"
| "StateFn_rank (Some BiddingState) = 7"
| "StateFn_rank (Some RunningState) = 6"
| "StateFn_rank (Some PublishingToVerifierState) = 5"
| "StateFn_rank (Some VerifyingResultsState) = 4"
| "StateFn_rank (Some PublishingToRequesterState) = 3"
| "StateFn_rank (Some ErrorState) = 2"
| "StateFn_rank (Some CompletedState) = 1"
| "StateFn_rank None = 0"

function Run_loop :: "StateFn option \<Rightarrow> 'r world \<Rightarrow> 'r run_result" where
  "Run_loop None w = (case close_req w of Inl p \<Rightarrow> Panicked p w | Inr w' \<Rightarrow> Returned w')"
| "Run_loop (Some state) w =
     (case call_state state w of
        Blocked w' \<Rightarrow> Waiting state w'
      | Next state' w' \<Rightarrow> Run_loop state' w')"
  by pat_completeness auto

definition Run :: "'r world \<Rightarrow> 'r run_result" where
  "Run w = Run_loop (Some EnqueuedState) w"

text \<open>A new machine, with the requests that its senders will deliver, before it has run.\<close>

definition new_world :: "JobShard \<Rightarrow> ComputeNode \<Rightarrow> 'r \<Rightarrow> shardStateRequest list \<Rightarrow> 'r world" where
  "new_world shard n requirements rs =
     set_pending rs \<lparr> fsm = newStateMachine shard n requirements, calls = [], entered = [], log = [] \<rparr>"

section \<open>The manager of the state machines\<close>

text \<open>
  The manager holds pointers to the machines, in a map and in a list. The machines live in
  a heap: \<open>machines\<close> gives the machine at each address, \<open>allocated\<close> is the next free
  address, and \<open>goroutines\<close> lists the machines whose \<open>Run\<close> has been launched.
\<close>

record shardStateMachineManager =
  shardStates :: "string \<rightharpoonup> nat"
  shardStatesList :: "nat list"

record 'r heap =
  machines :: "nat \<Rightarrow> 'r shardStateMachine"
  allocated :: nat
  goroutines :: "nat list"

definition NewShardComputeStateMachineManager :: shardStateMachineManager where
  "NewShardComputeStateMachineManager = \<lparr> shardStates = Map.empty, shardStatesList = [] \<rparr>"

definition StartShardStateIfNecessery ::
  "JobShard \<Rightarrow> ComputeNode \<Rightarrow> 'r \<Rightarrow> shardStateMachineManager \<times> 'r heap
     \<Rightarrow> shardStateMachineManager \<times> 'r heap" where
  "StartShardStateIfNecessery shard n requirements mh =
     (let m = fst mh; h = snd mh in
      case shardStates m (JobShard_ID shard) of
        None \<Rightarrow>
          (let shardState = allocated h;
               h1 = h\<lparr> machines := (machines h)(shardState := newStateMachine shard n requirements),
                       allocated := Suc (allocated h) \<rparr>;
               h2 = h1\<lparr> goroutines := goroutines h1 @ [shardState] \<rparr>
           in (m\<lparr> shardStates := (shardStates m)(JobShard_ID shard \<mapsto> shardState),
                   shardStatesList := shardStatesList m @ [shardState] \<rparr>, h2))
      | Some _ \<Rightarrow> (m, h))"

text \<open>
  The loop of \<open>cleanupCompleted\<close>: the map so far, the index of the item at the head of
  the rest of the list, and \<open>firstActive\<close>, which keeps its initial value when the loop
  runs to the end.
\<close>

fun cleanupCompleted_loop ::
  "'r heap \<Rightarrow> (string \<rightharpoonup> nat) \<Rightarrow> nat \<Rightarrow> nat \<Rightarrow> nat list \<Rightarrow> (string \<rightharpoonup> nat) \<times> nat" where
  "cleanupCompleted_loop h states firstActive index [] = (states, firstActive)"
| "cleanupCompleted_loop h states firstActive index (item # rest) =
     (if currentState (machines h item) \<noteq> shardCompleted then (states, index)
      else cleanupCompleted_loop h (states(JobShard_ID (Shard (machines h item)) := None))
             firstActive (Suc index) rest)"

definition cleanupCompleted :: "'r heap \<Rightarrow> shardStateMachineManager \<Rightarrow> shardStateMachineManager" where
  "cleanupCompleted h m =
     (let r = cleanupCompleted_loop h (shardStates m) (length (shardStatesList m)) 0 (shardStatesList m)
      in \<lparr> shardStates = fst r, shardStatesList = drop (snd r) (shardStatesList m) \<rparr>)"

fun GetEnqueued_loop :: "'r heap \<Rightarrow> nat list \<Rightarrow> nat list \<Rightarrow> nat list" where
  "GetEnqueued_loop h enqueud [] = enqueud"
| "GetEnqueued_loop h enqueud (i # rest) =
     GetEnqueued_loop h
       (if currentState (machines h i) = shardEnqueued then enqueud @ [i] else enqueud) rest"

definition GetEnqueued :: "'r heap \<Rightarrow> shardStateMachineManager \<Rightarrow> nat list \<times> shardStateMachineManager" where
  "GetEnqueued h m =
     (let m1 = cleanupCompleted h m in (GetEnqueued_loop h [] (shardStatesList m1), m1))"

fun GetActive_loop :: "'r heap \<Rightarrow> nat list \<Rightarrow> nat list \<Rightarrow> nat list" where
  "GetActive_loop h active [] = active"
| "GetActive_loop h active (i # rest) =
     GetActive_loop h
       (if currentState (machines h i) = shardBidding \<or> currentState (machines h i) = shardRunning
        then active @ [i] else active) rest"

definition GetActive :: "'r heap \<Rightarrow> shardStateMachineManager \<Rightarrow> nat list \<times> shardStateMachineManager" where
  "GetActive h m =
     (let m1 = cleanupCompleted h m in (GetActive_loop h [] (shardStatesList m1), m1))"

definition Get :: "shardStateMachineManager \<Rightarrow> string \<Rightarrow> nat option" where
  "Get m flatID = shardStates m flatID"

text \<open>
  The iterators call the handler on the capacity item of each machine, in the order of the
  list; the handler's effect is a change of a state of its own.
\<close>

fun iterate :: "('r CapacityManagerItem \<Rightarrow> 'a \<Rightarrow> 'a) \<Rightarrow> 'r heap \<Rightarrow> nat list \<Rightarrow> 'a \<Rightarrow> 'a" where
  "iterate handler h [] a = a"
| "iterate handler h (item # rest) a = iterate handler h rest (handler (capacity (machines h item)) a)"

definition BacklogIterator ::
  "('r CapacityManagerItem \<Rightarrow> 'a \<Rightarrow> 'a) \<Rightarrow> 'r heap \<Rightarrow> shardStateMachineManager \<Rightarrow> 'a
     \<Rightarrow> 'a \<times> shardStateMachineManager" where
  "BacklogIterator handler h m a =
     (let r = GetEnqueued h m in (iterate handler h (fst r) a, snd r))"

definition ActiveIterator ::
  "('r CapacityManagerItem \<Rightarrow> 'a \<Rightarrow> 'a) \<Rightarrow> 'r heap \<Rightarrow> shardStateMachineManager \<Rightarrow> 'a
     \<Rightarrow> 'a \<times> shardStateMachineManager" where
  "ActiveIterator handler h m a =
     (let r = GetActive h m in (iterate handler h (fst r) a, snd r))"

section \<open>Outcomes of a run\<close>

fun returned :: "'r run_result \<Rightarrow> bool" where
  "returned (Returned w) = True"
| "returned (Waiting state w) = False"
| "returned (Panicked p w) = False"

fun world_of :: "'r run_result \<Rightarrow> 'r world" where
  "world_of (Returned w) = w"
| "world_of (Waiting state w) = w"
| "world_of (Panicked p w) = w"

definition finished_message :: "byte list \<Rightarrow> string" where
  "finished_message p = ''Got results proposal of length: '' @ Sprintf_d (int (length p))"

definition results_published :: "'r world \<Rightarrow> bool" where
  "results_published w =
     (let m = fsm w; s = Shard m in
      calls w = [BidOnJob_call s, RunShard_call s,
                 ShardExecutionFinished_call (Job_ID s) (Index s) (finished_message (resultProposal m))
                   (resultProposal m),
                 PublishShard_call s]
      \<and> controller_ShardExecutionFinished (node m) (Job_ID s) (Index s)
            (finished_message (resultProposal m)) (resultProposal m) = None
      \<and> PublishShard (node m) s = None)"

definition error_reported :: "'r world \<Rightarrow> bool" where
  "error_reported w =
     (length (filter is_ShardError_call (calls w)) = 1 \<and> calls w \<noteq> []
      \<and> is_ShardError_call (last (calls w)))"

definition bid_rejected :: "'r world \<Rightarrow> bool" where
  "bid_rejected w = (calls w = [BidOnJob_call (Shard (fsm w))])"

text \<open>
  The two outcomes as the calls show them: the verifier was told and the shard published,
  in this order and both without error; and some \<open>ShardError\<close> was sent.
\<close>

definition finished_and_published :: "'r world \<Rightarrow> bool" where
  "finished_and_published w =
     (let m = fsm w; s = Shard m in
      filter (\<lambda>c. is_ShardExecutionFinished_call c \<or> is_PublishShard_call c) (calls w) =
        [ShardExecutionFinished_call (Job_ID s) (Index s) (finished_message (resultProposal m))
           (resultProposal m),
         PublishShard_call s]
      \<and> controller_ShardExecutionFinished (node m) (Job_ID s) (Index s)
            (finished_message (resultProposal m)) (resultProposal m) = None
      \<and> PublishShard (node m) s = None)"

definition error_sent :: "'r world \<Rightarrow> bool" where
  "error_sent w = (filter is_ShardError_call (calls w) \<noteq> [])"

text \<open>
  The requests as the waiting states take them. The Enqueued state receives up to the
  first Bid or Fail; the Bidding state then receives the rest, and the first Run, Rejected
  or Fail among them decides where it goes.
\<close>

fun after_enqueued :: "shardStateRequest list \<Rightarrow> shardStateRequest list" where
  "after_enqueued [] = []"
| "after_enqueued (r # rs) =
     (if action r = actionBid \<or> action r = actionFail then rs else after_enqueued rs)"

fun first_decision :: "shardStateRequest list \<Rightarrow> shardStateAction option" where
  "first_decision [] = None"
| "first_decision (r # rs) =
     (if action r = actionRun \<or> action r = actionRejected \<or> action r = actionFail
      then Some (action r) else first_decision rs)"

definition bidding_decision :: "shardStateRequest list \<Rightarrow> shardStateAction option" where
  "bidding_decision rs = first_decision (after_enqueued rs)"

definition outcome :: "shardStateType \<Rightarrow> shardStateAction option \<Rightarrow> 'r world \<Rightarrow> bool" where
  "outcome from d w =
     ((from = shardPublishingToRequester \<and> results_published w \<and> d = Some actionRun)
      \<or> (from = shardError \<and> error_reported w \<and> \<not> finished_and_published w
          \<and> (d = Some actionRun \<or> d = Some actionFail))
      \<or> (from = shardBidding \<and> bid_rejected w \<and> d = Some actionRejected))"

text \<open>
  What holds of a machine before each state function is called, and after the last, when
  the Bidding state is to receive the requests \<open>bs\<close>.
\<close>

definition verifier_told :: "'r world \<Rightarrow> bool" where
  "verifier_told w =
     (let m = fsm w; s = Shard m in
      bidSent m
      \<and> calls w = [BidOnJob_call s, RunShard_call s,
                   ShardExecutionFinished_call (Job_ID s) (Index s)
                     (finished_message (resultProposal m)) (resultProposal m)]
      \<and> controller_ShardExecutionFinished (node m) (Job_ID s) (Index s)
            (finished_message (resultProposal m)) (resultProposal m) = None)"

fun Inv_at :: "shardStateRequest list \<Rightarrow> StateFn option \<Rightarrow> 'r world \<Rightarrow> bool" where
  "Inv_at bs (Some EnqueuedState) w =
     (calls w = [] \<and> \<not> bidSent (fsm w) \<and> after_enqueued (pending (req (fsm w))) = bs)"
| "Inv_at bs (Some BiddingState) w =
     (bidSent (fsm w) \<and> calls w = [BidOnJob_call (Shard (fsm w))] \<and> pending (req (fsm w)) = bs)"
| "Inv_at bs (Some RunningState) w =
     (bidSent (fsm w) \<and> calls w = [BidOnJob_call (Shard (fsm w))] \<and> first_decision bs = Some actionRun)"
| "Inv_at bs (Some PublishingToVerifierState) w =
     (bidSent (fsm w) \<and> calls w = [BidOnJob_call (Shard (fsm w)), RunShard_call (Shard (fsm w))]
      \<and> first_decision bs = Some actionRun)"
| "Inv_at bs (Some VerifyingResultsState) w = (verifier_told w \<and> first_decision bs = Some actionRun)"
| "Inv_at bs (Some PublishingToRequesterState) w = (verifier_told w \<and> first_decision bs = Some actionRun)"
| "Inv_at bs (Some ErrorState) w =
     (filter is_ShardError_call (calls w) = [] \<and> \<not> finished_and_published w
      \<and> (bidSent (fsm w) \<longrightarrow> first_decision bs = Some actionRun \<or> first_decision bs = Some actionFail))"
| "Inv_at bs (Some CompletedState) w =
     (bidSent (fsm w) \<longrightarrow> outcome (currentState (fsm w)) (first_decision bs) w)"
| "Inv_at bs None w = (bidSent (fsm w) \<longrightarrow> outcome (previousState (fsm w)) (first_decision bs) w)"

definition Inv ::
  "JobShard \<Rightarrow> ComputeNode \<Rightarrow> shardStateRequest list \<Rightarrow> StateFn option \<Rightarrow> 'r world \<Rightarrow> bool" where
  "Inv s n bs st w = (Shard (fsm w) = s \<and> node (fsm w) = n \<and> Inv_at bs st w)"

section \<open>Example values\<close>

definition example_node :: ComputeNode where
  "example_node =
     \<lparr> node_ID = ''QmNodeId12345'',
       BidOnJob = (\<lambda>_. None),
       RunShard = (\<lambda>_. Inr [1]),
       controller_ShardExecutionFinished = (\<lambda>_ _ _ _. None),
       PublishShard = (\<lambda>_. None),
       controller_ShardError = (\<lambda>_ _ _. None) \<rparr>"

definition example_shard :: JobShard where
  "example_shard =
     \<lparr> Job_ID = ''job1'',
       Job_Spec = \<lparr> Contexts = [], Outputs = [], Docker_Image = ''ubuntu'' \<rparr>,
       Index = 0 \<rparr>"

definition request_of :: "shardStateAction \<Rightarrow> shardStateRequest" where
  "request_of a = \<lparr> action = a, failureReason = [] \<rparr>"

section \<open>Reading the manager\<close>

definition completed :: "'r heap \<Rightarrow> nat \<Rightarrow> bool" where
  "completed h item = (currentState (machines h item) = shardCompleted)"

definition active :: "'r heap \<Rightarrow> nat \<Rightarrow> bool" where
  "active h i = (currentState (machines h i) = shardBidding \<or> currentState (machines h i) = shardRunning)"

definition shard_ID_at :: "'r heap \<Rightarrow> nat \<Rightarrow> string" where
  "shard_ID_at h item = JobShard_ID (Shard (machines h item))"

definition collect :: "'a \<Rightarrow> 'a list \<Rightarrow> 'a list" where
  "collect item seen = seen @ [item]"

definition machine_in :: "shardStateType \<Rightarrow> JobShard \<Rightarrow> nat shardStateMachine" where
  "machine_in state shard = (newStateMachine shard example_node (1::nat))\<lparr> currentState := state \<rparr>"

definition example_heap :: "nat heap" where
  "example_heap =
     \<lparr> machines = (\<lambda>a. if a = 0 then machine_in shardCompleted (example_shard\<lparr> Index := 0 \<rparr>)
                       else if a = 1 then machine_in shardVerifyingResults (example_shard\<lparr> Index := 1 \<rparr>)
                       else if a = 2 then machine_in shardCompleted (example_shard\<lparr> Index := 2 \<rparr>)
                       else machine_in shardRunning (example_shard\<lparr> Index := 3 \<rparr>)),
       allocated = 4,
       goroutines = [0, 1, 2, 3] \<rparr>"

definition example_manager :: shardStateMachineManager where
  "example_manager =
     \<lparr> shardStates = [''job1:0'' \<mapsto> 0, ''job1:1'' \<mapsto> 1, ''job1:2'' \<mapsto> 2, ''job1:3'' \<mapsto> 3],
       shardStatesList = [0, 1, 2, 3] \<rparr>"

definition empty_heap :: "nat heap" where
  "empty_heap = \<lparr> machines = (\<lambda>a. machine_in shardInitialState example_shard), allocated = 0, goroutines = [] \<rparr>"

section \<open>The Docker executor\<close>

text \<open>
  Modelled from the spec: the permission constants of package \<open>storage/util\<close> (not among
  the sources), from their names and from "Permissions: owner-read/write, group+other
  read": the Unix permission bits, shifted into the places of user, group and others.
\<close>

type_synonym FileMode = "32 word"

definition OS_READ :: FileMode where "OS_READ = 4"
definition OS_WRITE :: FileMode where "OS_WRITE = 2"
definition OS_EX :: FileMode where "OS_EX = 1"
definition OS_USER_SHIFT :: nat where "OS_USER_SHIFT = 6"
definition OS_GROUP_SHIFT :: nat where "OS_GROUP_SHIFT = 3"
definition OS_OTH_SHIFT :: nat where "OS_OTH_SHIFT = 0"

definition OS_USER_R :: FileMode where "OS_USER_R = push_bit OS_USER_SHIFT OS_READ"
definition OS_USER_W :: FileMode where "OS_USER_W = push_bit OS_USER_SHIFT OS_WRITE"
definition OS_USER_X :: FileMode where "OS_USER_X = push_bit OS_USER_SHIFT OS_EX"
definition OS_USER_RW :: FileMode where "OS_USER_RW = OS_USER_R OR OS_USER_W"
definition OS_GROUP_R :: FileMode where "OS_GROUP_R = push_bit OS_GROUP_SHIFT OS_READ"
definition OS_GROUP_X :: FileMode where "OS_GROUP_X = push_bit OS_GROUP_SHIFT OS_EX"
definition OS_OTH_R :: FileMode where "OS_OTH_R = push_bit OS_OTH_SHIFT OS_READ"
definition OS_OTH_X :: FileMode where "OS_OTH_X = push_bit OS_OTH_SHIFT OS_EX"
definition OS_ALL_R :: FileMode where "OS_ALL_R = OS_USER_R OR OS_GROUP_R OR OS_OTH_R"
definition OS_ALL_X :: FileMode where "OS_ALL_X = OS_USER_X OR OS_GROUP_X OR OS_OTH_X"

record StorageVolume =
  volume_Type :: string
  volume_Source :: string
  volume_Target :: string

text \<open>Modelled from the spec: the connector type of a bind mount, of package \<open>storage\<close>.\<close>

definition StorageVolumeConnectorBind :: string where
  "StorageVolumeConnectorBind = ''bind''"

record Mount =
  mount_Type :: string
  ReadOnly :: bool
  Source :: string
  Target :: string

datatype inspect_result =
    ImageFound string
  | ImageNotFound string
  | ImageInspectFailed string

text \<open>
  What \<open>ContainerWait\<close> delivers to the \<open>select\<close>: an error on the error channel, or on the
  status channel an exit status with the error message it may carry.
\<close>

datatype wait_result =
    WaitError string
  | WaitStatus "64 word" "string option"

text \<open>
  The executor with the services it calls, each as the answer it gives to its arguments:
  storage providers, the Docker daemon and command line, the environment, the encoder of
  the job spec and the file system's refusals. An error is its message; \<open>None\<close> is \<open>nil\<close>.
\<close>

record Executor =
  executor_ID :: string
  GetShardStorageSpec :: "JobShard \<Rightarrow> string + StorageSpec list"
  getStorageProvider :: "string \<Rightarrow> string option"
  PrepareStorage :: "StorageSpec \<Rightarrow> string + StorageVolume"
  fmt_StorageSpec :: "StorageSpec \<Rightarrow> string"
  Mkdir_error :: "string \<Rightarrow> string option"
  SKIP_IMAGE_PULL :: string
  ImageInspectWithRaw :: "string \<Rightarrow> inspect_result"
  docker_pull :: "string \<Rightarrow> string \<times> string option"
  json_Marshal :: "JobSpec \<Rightarrow> string + string"
  ContainerCreate :: "JobShard \<Rightarrow> string \<Rightarrow> Mount list \<Rightarrow> string \<Rightarrow> string + string"
  ContainerStart :: "string \<Rightarrow> string option"
  ContainerWait :: "string \<Rightarrow> wait_result"
  docker_logs :: "string \<Rightarrow> string + string \<times> string"
  WriteFile_error :: "string \<Rightarrow> string option"
  ShouldKeepStack :: bool
  RemoveContainer :: "string \<Rightarrow> string option"

text \<open>
  The host as the executor changes it: the files written, each with its content and the
  permission bits asked for, the directories made, the containers removed, and the lines
  logged at the levels Info and Error (trace and debug lines are left out).
\<close>

record host =
  host_files :: "string \<rightharpoonup> string \<times> FileMode"
  host_dirs :: "string \<rightharpoonup> FileMode"
  removed :: "string list"
  host_log :: "(log_level \<times> string) list"

definition host_Msg :: "log_level \<Rightarrow> string \<Rightarrow> host \<Rightarrow> host" where
  "host_Msg level msg hst = hst\<lparr> host_log := host_log hst @ [(level, msg)] \<rparr>"

text \<open>
  \<open>os.Mkdir\<close> and \<open>os.WriteFile\<close>: on success the directory or the file is there with the
  permission bits passed to the call (the mode that results on disk is these bits cleared
  by the umask of the process, and that of the old file if there was one); on failure
  nothing is recorded.
\<close>

definition Mkdir :: "Executor \<Rightarrow> string \<Rightarrow> FileMode \<Rightarrow> host \<Rightarrow> string option \<times> host" where
  "Mkdir e path perm hst =
     (case Mkdir_error e path of
        Some err \<Rightarrow> (Some err, hst)
      | None \<Rightarrow> (None, hst\<lparr> host_dirs := (host_dirs hst)(path \<mapsto> perm) \<rparr>))"

definition WriteFile :: "Executor \<Rightarrow> string \<Rightarrow> string \<Rightarrow> FileMode \<Rightarrow> host \<Rightarrow> string option \<times> host" where
  "WriteFile e path data perm hst =
     (case WriteFile_error e path of
        Some err \<Rightarrow> (Some err, hst)
      | None \<Rightarrow> (None, hst\<lparr> host_files := (host_files hst)(path \<mapsto> (data, perm)) \<rparr>))"

definition jobContainerName :: "Executor \<Rightarrow> JobShard \<Rightarrow> string" where
  "jobContainerName e shard =
     ''bacalhau-'' @ executor_ID e @ ''-'' @ Job_ID shard @ ''-'' @ Sprintf_d (Index shard)"

definition addInputStorageHandler :: "Executor \<Rightarrow> StorageSpec \<Rightarrow> Mount list \<Rightarrow> string + Mount list" where
  "addInputStorageHandler e spec mounts =
     (case getStorageProvider e (Engine spec) of
        Some err \<Rightarrow> Inl err
      | None \<Rightarrow>
          (case PrepareStorage e spec of
             Inl err \<Rightarrow> Inl err
           | Inr volumeMount \<Rightarrow>
               if volume_Type volumeMount = StorageVolumeConnectorBind
               then Inr (mounts @ [\<lparr> mount_Type = ''bind'', ReadOnly = True,
                                     Source = volume_Source volumeMount,
                                     Target = volume_Target volumeMount \<rparr>])
               else Inl (''unknown storage volume type: '' @ volume_Type volumeMount)))"

fun add_inputs :: "Executor \<Rightarrow> StorageSpec list \<Rightarrow> Mount list \<Rightarrow> string + Mount list" where
  "add_inputs e [] mounts = Inr mounts"
| "add_inputs e (spec # rest) mounts =
     (case addInputStorageHandler e spec mounts of
        Inl err \<Rightarrow> Inl err
      | Inr mounts' \<Rightarrow> add_inputs e rest mounts')"

fun add_outputs ::
  "Executor \<Rightarrow> string \<Rightarrow> StorageSpec list \<Rightarrow> Mount list \<Rightarrow> host \<Rightarrow> (string + Mount list) \<times> host" where
  "add_outputs e jobResultsDir [] mounts hst = (Inr mounts, hst)"
| "add_outputs e jobResultsDir (output # rest) mounts hst =
     (if spec_Name output = [] then (Inl (''output volume has no name: '' @ fmt_StorageSpec e output), hst)
      else if spec_Path output = [] then (Inl (''output volume has no path: '' @ fmt_StorageSpec e output), hst)
      else (let srcd = jobResultsDir @ ''/'' @ spec_Name output in
            case Mkdir e srcd (OS_ALL_R OR OS_ALL_X OR OS_USER_W) hst of
              (Some err, hst') \<Rightarrow> (Inl err, hst')
            | (None, hst') \<Rightarrow>
                add_outputs e jobResultsDir rest
                  (mounts @ [\<lparr> mount_Type = ''bind'', ReadOnly = False, Source = srcd,
                               Target = spec_Path output \<rparr>]) hst'))"

definition pull_image :: "Executor \<Rightarrow> JobShard \<Rightarrow> string option" where
  "pull_image e shard =
     (if SKIP_IMAGE_PULL e = [] then
        (case ImageInspectWithRaw e (Docker_Image (Job_Spec shard)) of
           ImageFound im \<Rightarrow> None
         | ImageNotFound err \<Rightarrow>
             (case docker_pull e (Docker_Image (Job_Spec shard)) of
                (stdout, Some err') \<Rightarrow>
                  Some (''error pulling '' @ Docker_Image (Job_Spec shard) @ '': '' @ err' @ '', '' @ stdout)
              | (stdout, None) \<Rightarrow> None)
         | ImageInspectFailed err \<Rightarrow>
             Some (''error checking if we have '' @ Docker_Image (Job_Spec shard) @ '' locally: '' @ err))
      else None)"

text \<open>
  The first part of \<open>RunShard\<close>, up to the start of the container: the error it returns
  with, or the ID of the container started.
\<close>

definition RunShard_start :: "Executor \<Rightarrow> JobShard \<Rightarrow> string \<Rightarrow> host \<Rightarrow> (string + string) \<times> host" where
  "RunShard_start e shard jobResultsDir hst =
     (case GetShardStorageSpec e shard of
        Inl err \<Rightarrow> (Inl err, hst)
      | Inr shardStorageSpec \<Rightarrow>
     (case add_inputs e (Contexts (Job_Spec shard)) [] of
        Inl err \<Rightarrow> (Inl err, hst)
      | Inr mounts1 \<Rightarrow>
     (case add_inputs e shardStorageSpec mounts1 of
        Inl err \<Rightarrow> (Inl err, hst)
      | Inr mounts2 \<Rightarrow>
     (case add_outputs e jobResultsDir (Outputs (Job_Spec shard)) mounts2 hst of
        (Inl err, hst1) \<Rightarrow> (Inl err, hst1)
      | (Inr mounts, hst1) \<Rightarrow>
     (case pull_image e shard of
        Some err \<Rightarrow> (Inl err, hst1)
      | None \<Rightarrow>
     (case json_Marshal e (Job_Spec shard) of
        Inl err \<Rightarrow> (Inl err, hst1)
      | Inr jsonJobSpec \<Rightarrow>
     (case ContainerCreate e shard jsonJobSpec mounts (jobContainerName e shard) of
        Inl err \<Rightarrow> (Inl (''failed to create container: '' @ err), hst1)
      | Inr jobContainer \<Rightarrow>
     (case ContainerStart e jobContainer of
        Some err \<Rightarrow> (Inl (''failed to start container: '' @ err), hst1)
      | None \<Rightarrow> (Inr jobContainer, hst1)))))))))"

definition cleanupJob :: "Executor \<Rightarrow> JobShard \<Rightarrow> host \<Rightarrow> host" where
  "cleanupJob e shard hst =
     (if ShouldKeepStack e then hst
      else (case RemoveContainer e (jobContainerName e shard) of
              Some err \<Rightarrow> host_Msg ErrorLevel (''Docker remove container error: '' @ err) hst
            | None \<Rightarrow> hst\<lparr> removed := removed hst @ [jobContainerName e shard] \<rparr>))"

text \<open>The two variables that the \<open>select\<close> on the channels of \<open>ContainerWait\<close> sets.\<close>

fun containerExitStatusCode :: "wait_result \<Rightarrow> 64 word" where
  "containerExitStatusCode (WaitError err) = 0"
| "containerExitStatusCode (WaitStatus code err) = code"

fun wait_containerError :: "wait_result \<Rightarrow> string option" where
  "wait_containerError (WaitError err) = Some err"
| "wait_containerError (WaitStatus code err) = err"

text \<open>
  The second part of \<open>RunShard\<close>, from the wait for the container to the return. The exit
  status is a signed 64-bit integer, printed with \<open>%d\<close>.
\<close>

definition RunShard_collect :: "Executor \<Rightarrow> string \<Rightarrow> string \<Rightarrow> host \<Rightarrow> string option \<times> host" where
  "RunShard_collect e jobResultsDir jobContainer hst =
     (let code = containerExitStatusCode (ContainerWait e jobContainer);
          containerError0 = wait_containerError (ContainerWait e jobContainer);
          notZero = ''exit code was not zero: '' @ Sprintf_d (sint code);
          containerError =
            (if code \<noteq> 0 then Some (case containerError0 of None \<Rightarrow> notZero | Some err \<Rightarrow> err)
             else containerError0);
          hst1 = (case containerError of
                    Some err \<Rightarrow> if code \<noteq> 0 then host_Msg InfoLevel (''container error '' @ err) hst else hst
                  | None \<Rightarrow> hst)
      in case docker_logs e jobContainer of
           Inl err \<Rightarrow> (Some (''failed to get logs: '' @ err), hst1)
         | Inr (stdout, stderr) \<Rightarrow>
      (case WriteFile e (jobResultsDir @ ''/exitCode'') (Sprintf_d (sint code))
              (OS_ALL_R OR OS_USER_RW) hst1 of
         (Some err, hst2) \<Rightarrow>
           (Some (''could not write results to exitCode: '' @ err),
            host_Msg ErrorLevel (''could not write results to exitCode: '' @ err) hst2)
       | (None, hst2) \<Rightarrow>
      (case WriteFile e (jobResultsDir @ ''/stdout'') stdout (OS_ALL_R OR OS_USER_RW) hst2 of
         (Some err, hst3) \<Rightarrow>
           (Some (''could not write results to stdout: '' @ err),
            host_Msg ErrorLevel (''could not write results to stdout: '' @ err) hst3)
       | (None, hst3) \<Rightarrow>
      (case WriteFile e (jobResultsDir @ ''/stderr'') stderr (OS_ALL_R OR OS_USER_RW) hst3 of
         (Some err, hst4) \<Rightarrow>
           (Some (''could not write results to stderr: '' @ err),
            host_Msg ErrorLevel (''could not write results to stderr: '' @ err) hst4)
       | (None, hst4) \<Rightarrow> (containerError, hst4)))))"

text \<open>
  \<open>RunShard\<close>: the error it returns, \<open>None\<close> for \<open>nil\<close>, and the host afterwards. The
  clean-up deferred after the start of the container runs on every later return.
\<close>

definition docker_RunShard :: "Executor \<Rightarrow> JobShard \<Rightarrow> string \<Rightarrow> host \<Rightarrow> string option \<times> host" where
  "docker_RunShard e shard jobResultsDir hst =
     (case RunShard_start e shard jobResultsDir hst of
        (Inl err, hst1) \<Rightarrow> (Some err, hst1)
      | (Inr jobContainer, hst1) \<Rightarrow>
          (let r = RunShard_collect e jobResultsDir jobContainer hst1
           in (fst r, cleanupJob e shard (snd r))))"

text \<open>
  Modelled from the spec: \<open>RunShard\<close> of the compute node (package \<open>computenode\<close>; the file
  that defines it is not among the sources) - "run shard via executor; on failure \<rightarrow> Error;
  else set resultProposal" and, of a container that exits with a non-zero status, "Run
  succeeds but executor reports non-zero exit \<rightarrow> proposal still produced". The executor
  reports such an exit, after it has written the results, as the error "exit code was not
  zero" with the status that \<open>exitCode\<close> holds; the node takes this report for a run that
  succeeded and any other error for a failure. The proposal is what the verifier makes of
  the results folder.
\<close>

definition reports_nonzero_exit :: "string \<Rightarrow> string \<Rightarrow> host \<Rightarrow> bool" where
  "reports_nonzero_exit resultsDir err hst =
     (case host_files hst (resultsDir @ ''/exitCode'') of
        None \<Rightarrow> False
      | Some (status, mode) \<Rightarrow> err = ''exit code was not zero: '' @ status)"

definition ComputeNode_RunShard ::
  "Executor \<Rightarrow> string \<Rightarrow> (host \<Rightarrow> byte list) \<Rightarrow> host \<Rightarrow> JobShard \<Rightarrow> string + byte list" where
  "ComputeNode_RunShard e resultsDir GetShardProposal hst shard =
     (case docker_RunShard e shard resultsDir hst of
        (Some err, hst') \<Rightarrow>
          if reports_nonzero_exit resultsDir err hst' then Inr (GetShardProposal hst') else Inl err
      | (None, hst') \<Rightarrow> Inr (GetShardProposal hst'))"

fun goes_to :: "'r step \<Rightarrow> StateFn option \<Rightarrow> bool" where
  "goes_to (Next st w) st' = (st = st')"
| "goes_to (Blocked w) st' = False"

text \<open>Reading a decimal integer back.\<close>

definition digit_value :: "char \<Rightarrow> nat option" where
  "digit_value c =
     (if (48::nat) \<le> of_char c \<and> of_char c \<le> (57::nat) then Some (of_char c - 48) else None)"

fun parse_digits :: "nat \<Rightarrow> string \<Rightarrow> nat option" where
  "parse_digits acc [] = Some acc"
| "parse_digits acc (c # cs) =
     (case digit_value c of None \<Rightarrow> None | Some d \<Rightarrow> parse_digits (10 * acc + d) cs)"

definition parse_decimal :: "string \<Rightarrow> int option" where
  "parse_decimal s =
     (if s = [] \<or> s = ''-'' then None
      else if hd s = CHR ''-'' then map_option (\<lambda>n. - int n) (parse_digits 0 (tl s))
      else map_option int (parse_digits 0 s))"

definition example_executor :: Executor where
  "example_executor =
     \<lparr> executor_ID = ''exec1'',
       GetShardStorageSpec = (\<lambda>_. Inr []),
       getStorageProvider = (\<lambda>_. None),
       PrepareStorage = (\<lambda>_. Inl ''no storage''),
       fmt_StorageSpec = (\<lambda>_. []),
       Mkdir_error = (\<lambda>_. None),
       SKIP_IMAGE_PULL = ''1'',
       ImageInspectWithRaw = (\<lambda>_. ImageFound ''sha256:0''),
       docker_pull = (\<lambda>_. ([], None)),
       json_Marshal = (\<lambda>_. Inr ''{}''),
       ContainerCreate = (\<lambda>_ _ _ name. Inr name),
       ContainerStart = (\<lambda>_. None),
       ContainerWait = (\<lambda>_. WaitStatus 1 None),
       docker_logs = (\<lambda>_. Inr (''out'', ''err'')),
       WriteFile_error = (\<lambda>_. None),
       ShouldKeepStack = False,
       RemoveContainer = (\<lambda>_. None) \<rparr>"

definition example_proposal :: "host \<Rightarrow> byte list" where
  "example_proposal hst = [1]"

definition ok_executor :: Executor where
  "ok_executor = example_executor\<lparr> ContainerWait := (\<lambda>c. WaitStatus 0 None) \<rparr>"

definition empty_host :: host where
  "empty_host = \<lparr> host_files = Map.empty, host_dirs = Map.empty, removed = [], host_log = [] \<rparr>"

definition executor_node :: ComputeNode where
  "executor_node =
     example_node\<lparr> RunShard := ComputeNode_RunShard example_executor ''/results'' example_proposal
                                  empty_host \<rparr>"

section \<open>Every run ends\<close>

lemma enqueuedState_loop_rank:
  "enqueuedState_loop w rs = Next st w' \<Longrightarrow> StateFn_rank st < 8"
  by (induction rs arbitrary: w) (auto split: shardStateAction.splits option.splits simp: Let_def)

lemma biddingState_loop_rank:
  "biddingState_loop w rs = Next st w' \<Longrightarrow> StateFn_rank st < 7"
  by (induction rs arbitrary: w) (auto split: shardStateAction.splits)

lemma verifyingResultsState_loop_rank:
  "verifyingResultsState_loop w rs = Next st w' \<Longrightarrow> StateFn_rank st < 4"
  by (induction rs arbitrary: w) (auto split: shardStateAction.splits)

lemma call_state_rank:
  "call_state s w = Next st w' \<Longrightarrow> StateFn_rank st < StateFn_rank (Some s)"
  by (cases s)
     (auto simp: enqueuedState_def biddingState_def runningState_def publishingToVerifierState_def
        verifyingResultsState_def publishingToRequesterState_def errorState_def completedState_def
        Let_def
        dest: enqueuedState_loop_rank biddingState_loop_rank verifyingResultsState_loop_rank
        split: sum.splits option.splits if_splits)

termination Run_loop
  by (relation "measure (\<lambda>(st, w). StateFn_rank st)") (auto dest: call_state_rank)

section \<open>What each operation leaves unchanged\<close>

lemma fsm_Msgf [simp]: "fsm (Msgf l s w) = fsm w" by (simp add: Msgf_def)
lemma calls_Msgf [simp]: "calls (Msgf l s w) = calls w" by (simp add: Msgf_def)
lemma entered_Msgf [simp]: "entered (Msgf l s w) = entered w" by (simp add: Msgf_def)
lemma log_Msgf [simp]: "log (Msgf l s w) = log w @ [(l, s)]" by (simp add: Msgf_def)

lemma fsm_foldl_Msgf [simp]: "fsm (foldl (\<lambda>w' r. Msgf l (f r) w') w rs) = fsm w"
  by (induction rs arbitrary: w) simp_all
lemma calls_foldl_Msgf [simp]: "calls (foldl (\<lambda>w' r. Msgf l (f r) w') w rs) = calls w"
  by (induction rs arbitrary: w) simp_all
lemma entered_foldl_Msgf [simp]: "entered (foldl (\<lambda>w' r. Msgf l (f r) w') w rs) = entered w"
  by (induction rs arbitrary: w) simp_all

lemma fsm_transitionedTo [simp]:
  "fsm (transitionedTo s w) = (fsm w)\<lparr> previousState := currentState (fsm w), currentState := s \<rparr>"
  by (simp add: transitionedTo_def Let_def)
lemma calls_transitionedTo [simp]: "calls (transitionedTo s w) = calls w"
  by (simp add: transitionedTo_def Let_def)
lemma entered_transitionedTo [simp]: "entered (transitionedTo s w) = entered w @ [s]"
  by (simp add: transitionedTo_def Let_def)

lemma closed_transitionedTo [simp]: "closed (req (fsm (transitionedTo s w))) = closed (req (fsm w))"
  by (simp add: transitionedTo_def Let_def)

lemma fsm_ignoring_unknown [simp]: "fsm (ignoring_unknown r w) = fsm w"
  by (simp add: ignoring_unknown_def)
lemma calls_ignoring_unknown [simp]: "calls (ignoring_unknown r w) = calls w"
  by (simp add: ignoring_unknown_def)
lemma entered_ignoring_unknown [simp]: "entered (ignoring_unknown r w) = entered w"
  by (simp add: ignoring_unknown_def)

lemma fsm_set_pending [simp]:
  "fsm (set_pending rs w) = (fsm w)\<lparr> req := (req (fsm w))\<lparr> pending := rs \<rparr> \<rparr>"
  by (simp add: set_pending_def)
lemma calls_set_pending [simp]: "calls (set_pending rs w) = calls w"
  by (simp add: set_pending_def)
lemma entered_set_pending [simp]: "entered (set_pending rs w) = entered w"
  by (simp add: set_pending_def)

lemma fsm_set_errorMsg [simp]: "fsm (set_errorMsg e w) = (fsm w)\<lparr> errorMsg := e \<rparr>"
  by (simp add: set_errorMsg_def)
lemma calls_set_errorMsg [simp]: "calls (set_errorMsg e w) = calls w"
  by (simp add: set_errorMsg_def)
lemma entered_set_errorMsg [simp]: "entered (set_errorMsg e w) = entered w"
  by (simp add: set_errorMsg_def)

lemma fsm_called [simp]: "fsm (called c w) = fsm w"
  by (simp add: called_def)
lemma calls_called [simp]: "calls (called c w) = calls w @ [c]"
  by (simp add: called_def)
lemma entered_called [simp]: "entered (called c w) = entered w"
  by (simp add: called_def)

lemma close_req_Inr:
  "close_req w = Inr w' \<Longrightarrow>
     \<not> closed (req (fsm w)) \<and> fsm w' = (fsm w)\<lparr> req := \<lparr> closed = True, pending = [] \<rparr> \<rparr>
     \<and> calls w' = calls w \<and> entered w' = entered w"
  by (auto simp: close_req_def split: if_splits)

lemma enqueuedState_loop_closed:
  "enqueuedState_loop w rs = Next st w' \<Longrightarrow> closed (req (fsm w')) = closed (req (fsm w))"
  by (induction rs arbitrary: w)
     (auto split: shardStateAction.splits option.splits
           simp: Let_def set_pending_def set_errorMsg_def called_def ignoring_unknown_def)

lemma biddingState_loop_closed:
  "biddingState_loop w rs = Next st w' \<Longrightarrow> closed (req (fsm w')) = closed (req (fsm w))"
  by (induction rs arbitrary: w)
     (auto split: shardStateAction.splits option.splits
           simp: Let_def set_pending_def set_errorMsg_def called_def ignoring_unknown_def)

lemma verifyingResultsState_loop_closed:
  "verifyingResultsState_loop w rs = Next st w' \<Longrightarrow> closed (req (fsm w')) = closed (req (fsm w))"
  by (induction rs arbitrary: w)
     (auto split: shardStateAction.splits option.splits
           simp: Let_def set_pending_def set_errorMsg_def called_def ignoring_unknown_def)

lemma call_state_closed:
  "call_state s w = Next st w' \<Longrightarrow> closed (req (fsm w')) = closed (req (fsm w))"
  by (cases s)
     (auto simp: enqueuedState_def biddingState_def runningState_def publishingToVerifierState_def
        verifyingResultsState_def publishingToRequesterState_def errorState_def completedState_def
        Let_def called_def set_errorMsg_def
        dest: enqueuedState_loop_closed biddingState_loop_closed verifyingResultsState_loop_closed
        split: sum.splits option.splits if_splits)

section \<open>A run that returns has completed and closed its channel\<close>

lemma enqueuedState_loop_Some:
  "enqueuedState_loop w rs = Next st w' \<Longrightarrow> st \<noteq> None"
  by (induction rs arbitrary: w) (auto split: shardStateAction.splits option.splits simp: Let_def)

lemma biddingState_loop_Some:
  "biddingState_loop w rs = Next st w' \<Longrightarrow> st \<noteq> None"
  by (induction rs arbitrary: w) (auto split: shardStateAction.splits)

lemma verifyingResultsState_loop_Some:
  "verifyingResultsState_loop w rs = Next st w' \<Longrightarrow> st \<noteq> None"
  by (induction rs arbitrary: w) (auto split: shardStateAction.splits)

lemma call_state_None_Completed:
  "call_state s w = Next None w' \<Longrightarrow> currentState (fsm w') = shardCompleted"
  by (cases s)
     (auto simp: enqueuedState_def biddingState_def runningState_def publishingToVerifierState_def
        verifyingResultsState_def publishingToRequesterState_def errorState_def completedState_def
        Let_def
        dest: enqueuedState_loop_Some biddingState_loop_Some verifyingResultsState_loop_Some
        split: sum.splits option.splits if_splits)

lemma Run_loop_Returned:
  "Run_loop st w0 = Returned w \<Longrightarrow>
     \<not> closed (req (fsm w0)) \<and> closed (req (fsm w)) \<and> pending (req (fsm w)) = []
     \<and> (st = None \<or> currentState (fsm w) = shardCompleted)
     \<and> (st = None \<longrightarrow> currentState (fsm w) = currentState (fsm w0))"
proof (induction st w0 rule: Run_loop.induct)
  case (1 v)
  then show ?case by (auto split: sum.splits dest: close_req_Inr)
next
  case (2 state v)
  from "2.prems" obtain st' v' where s: "call_state state v = Next st' v'"
    and r: "Run_loop st' v' = Returned w"
    by (auto split: step.splits)
  from "2.IH"[OF s r] call_state_closed[OF s] call_state_None_Completed[of state v v'] s
  show ?case by (cases st') auto
qed

lemmas state_defs = enqueuedState_def biddingState_def runningState_def publishingToVerifierState_def
        verifyingResultsState_def publishingToRequesterState_def errorState_def completedState_def

lemmas world_defs = called_def set_errorMsg_def set_pending_def ignoring_unknown_def Msgf_def

section \<open>Two runs, step by step\<close>

lemma Fail_while_Enqueued_run:
  "\<exists>w. Run (new_world shard n requirements [\<lparr> action = actionFail, failureReason = reason \<rparr>]) = Returned w
     \<and> entered w = [shardEnqueued, shardError, shardCompleted] \<and> calls w = [] \<and> \<not> bidSent (fsm w)"
  by (auto simp: Run_def new_world_def newStateMachine_def state_defs world_defs Let_def close_req_def)

lemma happy_path_run:
  assumes "action r1 = actionBid" "action r2 = actionRun" "action r3 = actionPublish"
    and "BidOnJob n shard = None"
    and "RunShard n shard = Inr proposal"
    and "controller_ShardExecutionFinished n (Job_ID shard) (Index shard)
           (finished_message proposal) proposal = None"
    and "PublishShard n shard = None"
  shows "\<exists>w. Run (new_world shard n requirements [r1, r2, r3]) = Returned w
     \<and> entered w = [shardEnqueued, shardBidding, shardRunning, shardPublishingToVerifier,
                     shardVerifyingResults, shardPublishingToRequester, shardCompleted]
     \<and> calls w = [BidOnJob_call shard, RunShard_call shard,
                   ShardExecutionFinished_call (Job_ID shard) (Index shard)
                     (finished_message proposal) proposal,
                   PublishShard_call shard]
     \<and> resultProposal (fsm w) = proposal \<and> bidSent (fsm w)"
  using assms
  by (auto simp: Run_def new_world_def newStateMachine_def state_defs world_defs Let_def close_req_def
        finished_message_def)

lemma rejected_run:
  "\<exists>w. Run (new_world example_shard example_node (0::nat)
            [request_of actionBid, request_of actionRejected]) = Returned w \<and> bidSent (fsm w)"
  by (simp add: Run_def new_world_def newStateMachine_def state_defs world_defs Let_def close_req_def
        request_of_def example_node_def)

lemma example_node_ok:
  "BidOnJob example_node example_shard = None"
  "RunShard example_node example_shard = Inr [1]"
  "controller_ShardExecutionFinished example_node j i msg p = None"
  "PublishShard example_node example_shard = None"
  by (simp_all add: example_node_def)

section \<open>The outcome of a run after a bid\<close>

lemmas outcome_defs = outcome_def results_published_def error_reported_def bid_rejected_def
  verifier_told_def finished_and_published_def

lemma Inv_at_frame:
  "fsm w' = fsm w \<Longrightarrow> calls w' = calls w \<Longrightarrow> Inv_at bs st w' = Inv_at bs st w"
  by (cases "(bs, st, w)" rule: Inv_at.cases) (simp_all add: outcome_defs)

lemma Inv_ignoring_unknown [simp]: "Inv s n bs st (ignoring_unknown r w) = Inv s n bs st w"
  by (simp add: Inv_def Inv_at_frame[of "ignoring_unknown r w" w])

lemma Inv_enqueuedState_loop:
  "Shard (fsm w) = s \<Longrightarrow> node (fsm w) = n \<Longrightarrow> calls w = [] \<Longrightarrow> \<not> bidSent (fsm w) \<Longrightarrow>
   enqueuedState_loop w ps = Next st w' \<Longrightarrow> Inv s n (after_enqueued ps) st w'"
proof (induction ps arbitrary: w)
  case Nil
  then show ?case by simp
next
  case (Cons r ps)
  show ?case
  proof (cases "action r = actionBid \<or> action r = actionFail")
    case True
    with Cons.prems show ?thesis
      by (auto simp: Inv_def Let_def finished_and_published_def split: option.splits)
  next
    case False
    with Cons.prems have "enqueuedState_loop (ignoring_unknown r w) ps = Next st w'"
      by (cases "action r") simp_all
    with Cons.IH[of "ignoring_unknown r w"] Cons.prems False show ?thesis by simp
  qed
qed

lemma Inv_biddingState_loop:
  "Shard (fsm w) = s \<Longrightarrow> node (fsm w) = n \<Longrightarrow> bidSent (fsm w) \<Longrightarrow>
   calls w = [BidOnJob_call s] \<Longrightarrow> currentState (fsm w) = shardBidding \<Longrightarrow>
   biddingState_loop w ps = Next st w' \<Longrightarrow>
   Shard (fsm w') = s \<and> node (fsm w') = n \<and> bidSent (fsm w') \<and> calls w' = [BidOnJob_call s]
   \<and> currentState (fsm w') = shardBidding
   \<and> (st = Some RunningState \<and> first_decision ps = Some actionRun
       \<or> st = Some CompletedState \<and> first_decision ps = Some actionRejected
       \<or> st = Some ErrorState \<and> first_decision ps = Some actionFail)"
proof (induction ps arbitrary: w)
  case Nil
  then show ?case by simp
next
  case (Cons r ps)
  show ?case
  proof (cases "action r = actionRun \<or> action r = actionRejected \<or> action r = actionFail")
    case True
    with Cons.prems show ?thesis by auto
  next
    case False
    with Cons.prems have "biddingState_loop (ignoring_unknown r w) ps = Next st w'"
      by (cases "action r") simp_all
    with Cons.IH[of "ignoring_unknown r w"] Cons.prems False show ?thesis by simp
  qed
qed

lemma Inv_verifyingResultsState_loop:
  "Inv s n bs (Some VerifyingResultsState) w \<Longrightarrow>
   verifyingResultsState_loop w rs = Next st w' \<Longrightarrow> Inv s n bs st w'"
proof (induction rs arbitrary: w)
  case Nil
  then show ?case by simp
next
  case (Cons r rs)
  show ?case
  proof (cases "action r = actionPublish \<or> action r = actionFail")
    case True
    with Cons.prems show ?thesis
      by (auto simp: Inv_def Let_def verifier_told_def finished_and_published_def)
  next
    case False
    with Cons.prems have "verifyingResultsState_loop (ignoring_unknown r w) rs = Next st w'"
      by (cases "action r") simp_all
    with Cons.IH[of "ignoring_unknown r w"] Cons.prems(1) show ?thesis by simp
  qed
qed

lemma verifier_told_transitionedTo [simp]:
  "verifier_told (transitionedTo t w) = verifier_told w"
  by (simp add: verifier_told_def Let_def)

lemma outcome_frame:
  "calls w' = calls w \<Longrightarrow> Shard (fsm w') = Shard (fsm w) \<Longrightarrow> node (fsm w') = node (fsm w)
   \<Longrightarrow> resultProposal (fsm w') = resultProposal (fsm w) \<Longrightarrow> outcome x d w' = outcome x d w"
  by (simp add: outcome_defs Let_def)

lemma Inv_call_state:
  assumes i: "Inv s n bs (Some state) w" and c: "call_state state w = Next st w'"
  shows "Inv s n bs st w'"
proof (cases state)
  case EnqueuedState
  with i c show ?thesis
    using Inv_enqueuedState_loop[of "transitionedTo shardEnqueued w" s n "pending (req (fsm w))" st w']
    by (simp add: enqueuedState_def Let_def Inv_def)
next
  case BiddingState
  with i c have "Shard (fsm w') = s \<and> node (fsm w') = n \<and> bidSent (fsm w') \<and> calls w' = [BidOnJob_call s]
   \<and> currentState (fsm w') = shardBidding
   \<and> (st = Some RunningState \<and> first_decision bs = Some actionRun
       \<or> st = Some CompletedState \<and> first_decision bs = Some actionRejected
       \<or> st = Some ErrorState \<and> first_decision bs = Some actionFail)"
    using Inv_biddingState_loop[of "transitionedTo shardBidding w" s n bs st w']
    by (simp add: biddingState_def Let_def Inv_def)
  then show ?thesis
    by (auto simp: Inv_def outcome_def bid_rejected_def finished_and_published_def)
next
  case RunningState
  with i c show ?thesis
    by (auto simp: runningState_def Let_def Inv_def finished_and_published_def split: sum.splits)
next
  case PublishingToVerifierState
  with i c show ?thesis
    by (auto simp: publishingToVerifierState_def Let_def Inv_def verifier_told_def
          finished_message_def finished_and_published_def split: option.splits)
next
  case VerifyingResultsState
  with i c show ?thesis
    using Inv_verifyingResultsState_loop[of s n bs "transitionedTo shardVerifyingResults w" _ st w']
    by (simp add: verifyingResultsState_def Let_def Inv_def)
next
  case PublishingToRequesterState
  with i c show ?thesis
    by (auto simp: publishingToRequesterState_def Let_def Inv_def outcome_defs split: option.splits)
next
  case ErrorState
  with i c show ?thesis
    by (auto simp: errorState_def Let_def Inv_def outcome_defs split: option.splits if_splits)
next
  case CompletedState
  with i c show ?thesis
    using outcome_frame[of "transitionedTo shardCompleted w" w "currentState (fsm w)" "first_decision bs"]
    by (auto simp: completedState_def Inv_def)
qed

lemma Inv_close_req: "Inv s n bs None w \<Longrightarrow> close_req w = Inr w' \<Longrightarrow> Inv s n bs None w'"
  using outcome_frame[of w' w "previousState (fsm w)" "first_decision bs"]
  by (auto simp: Inv_def dest!: close_req_Inr)

lemma Inv_Run_loop:
  "Inv s n bs st w0 \<Longrightarrow> Run_loop st w0 = Returned w \<Longrightarrow> Inv s n bs None w"
proof (induction st w0 rule: Run_loop.induct)
  case (1 v)
  then show ?case by (auto split: sum.splits dest: Inv_close_req)
next
  case (2 state v)
  from "2.prems" obtain st' v' where c: "call_state state v = Next st' v'"
    and r: "Run_loop st' v' = Returned w"
    by (auto split: step.splits)
  from "2.IH"[OF c _ r] Inv_call_state[OF "2.prems"(1) c] show ?case by simp
qed

lemma Inv_new_world:
  "Inv shard n (after_enqueued rs) (Some EnqueuedState) (new_world shard n requirements rs)"
  by (simp add: Inv_def new_world_def newStateMachine_def set_pending_def)

lemma outcome_cases:
  assumes "outcome from d w"
  shows "\<not> (finished_and_published w \<and> error_sent w)"
    and "finished_and_published w \<longleftrightarrow> results_published w"
    and "error_sent w \<longleftrightarrow> error_reported w"
    and "\<not> finished_and_published w \<and> \<not> error_sent w \<longleftrightarrow> d = Some actionRejected"
    and "d = Some actionRejected \<longrightarrow> bid_rejected w"
    and "results_published w \<longleftrightarrow> from = shardPublishingToRequester"
    and "error_reported w \<longleftrightarrow> from = shardError"
    and "bid_rejected w \<longleftrightarrow> from = shardBidding"
  using assms
  by (auto simp: outcome_def results_published_def error_reported_def bid_rejected_def
        finished_and_published_def error_sent_def Let_def)

section \<open>The names of actions and states\<close>

lemma shardStateType_String_total: "\<exists>name. shardStateType_String s = Inr name"
  by (cases s) (simp_all add: shardStateType_String_def shardStateType_names_def array_index_def)

text \<open>
  Claim C10. Every declared action constant should have a name: \<open>String\<close> should index the
  array of names inside its bounds. The array holds four names for five constants, so
  \<open>actionPublish\<close>, whose value is 4, indexes it at its length and the method panics.
  The other four constants get their names.
\<close>

theorem shardStateAction_String_actionPublish_panics:
  "shardStateAction_String actionPublish = Inl (IndexOutOfRange 4 4)
   \<and> shardStateAction_String actionBid = Inr ''ActionBid''
   \<and> shardStateAction_String actionRejected = Inr ''ActionRejected''
   \<and> shardStateAction_String actionFail = Inr ''ActionFail''
   \<and> shardStateAction_String actionRun = Inr ''ActionRun''"
  by (simp add: shardStateAction_String_def shardStateAction_names_def array_index_def)

section \<open>The Error state\<close>

text \<open>
  Claim C3. Whenever a machine enters the Error state it makes exactly one call of
  \<open>ShardError\<close> if \<open>bidSent\<close> is true and none otherwise, whatever that call returns, and
  then goes to Completed, which ends the run. A \<open>Fail\<close> received while Enqueued, before any
  bid, runs Enqueued, Error, Completed without any call.
\<close>

theorem errorState_ShardError_iff_bidSent:
  "\<exists>w' w''. errorState w = Next (Some CompletedState) w'
      \<and> entered w' = entered w @ [shardError]
      \<and> bidSent (fsm w') = bidSent (fsm w)
      \<and> length (filter is_ShardError_call (calls w'))
          = length (filter is_ShardError_call (calls w)) + (if bidSent (fsm w) then 1 else 0)
      \<and> length (calls w') = length (calls w) + (if bidSent (fsm w) then 1 else 0)
      \<and> call_state CompletedState w' = Next None w''
      \<and> currentState (fsm w'') = shardCompleted \<and> calls w'' = calls w'
      \<and> returned (Run (new_world shard n requirements [\<lparr> action = actionFail, failureReason = reason \<rparr>]))
      \<and> entered (world_of (Run (new_world shard n requirements
              [\<lparr> action = actionFail, failureReason = reason \<rparr>])))
          = [shardEnqueued, shardError, shardCompleted]
      \<and> calls (world_of (Run (new_world shard n requirements
              [\<lparr> action = actionFail, failureReason = reason \<rparr>]))) = []"
proof -
  obtain v where "Run (new_world shard n requirements [\<lparr> action = actionFail, failureReason = reason \<rparr>]) = Returned v"
    and "entered v = [shardEnqueued, shardError, shardCompleted]" and "calls v = []"
    using Fail_while_Enqueued_run[of shard n requirements reason] by blast
  then show ?thesis
    by (auto simp: errorState_def completedState_def Let_def split: option.splits)
qed

theorem errorState_ShardError_iff_bidSent_witness:
  "\<exists>w'. errorState (world_of (Run (new_world example_shard example_node (0::nat)
             [request_of actionBid, request_of actionRun]))) = Next (Some CompletedState) w'
      \<and> length (filter is_ShardError_call (calls w')) = 1"
  using errorState_ShardError_iff_bidSent[of "world_of (Run (new_world example_shard example_node (0::nat)
             [request_of actionBid, request_of actionRun]))" example_shard example_node "0::nat" "[]"]
  by (auto simp: Run_def new_world_def newStateMachine_def state_defs world_defs Let_def
        request_of_def example_node_def)

section \<open>The happy path\<close>

text \<open>
  Claim C7. With the requests Bid, Run, Publish delivered in this order, and \<open>BidOnJob\<close>,
  \<open>RunShard\<close> (returning a proposal), \<open>ShardExecutionFinished\<close> and \<open>PublishShard\<close>
  all succeeding, the run returns after entering exactly Enqueued, Bidding, Running,
  PublishingToVerifier, VerifyingResults, PublishingToRequester, Completed, and its calls
  are one \<open>BidOnJob\<close>, the run of the shard, one \<open>ShardExecutionFinished\<close> with the
  proposal, one \<open>PublishShard\<close>, and no \<open>ShardError\<close>.
\<close>

theorem happy_path:
  assumes "action r1 = actionBid" "action r2 = actionRun" "action r3 = actionPublish"
    and "BidOnJob n shard = None"
    and "RunShard n shard = Inr proposal"
    and "controller_ShardExecutionFinished n (Job_ID shard) (Index shard)
           (finished_message proposal) proposal = None"
    and "PublishShard n shard = None"
  shows "\<exists>w. Run (new_world shard n requirements [r1, r2, r3]) = Returned w
     \<and> entered w = [shardEnqueued, shardBidding, shardRunning, shardPublishingToVerifier,
                     shardVerifyingResults, shardPublishingToRequester, shardCompleted]
     \<and> calls w = [BidOnJob_call shard, RunShard_call shard,
                   ShardExecutionFinished_call (Job_ID shard) (Index shard)
                     (finished_message proposal) proposal,
                   PublishShard_call shard]
     \<and> resultProposal (fsm w) = proposal
     \<and> filter is_ShardError_call (calls w) = []"
proof -
  from happy_path_run[OF assms, of requirements] obtain w where
    "Run (new_world shard n requirements [r1, r2, r3]) = Returned w"
    "entered w = [shardEnqueued, shardBidding, shardRunning, shardPublishingToVerifier,
                     shardVerifyingResults, shardPublishingToRequester, shardCompleted]"
    "calls w = [BidOnJob_call shard, RunShard_call shard,
                   ShardExecutionFinished_call (Job_ID shard) (Index shard)
                     (finished_message proposal) proposal,
                   PublishShard_call shard]"
    "resultProposal (fsm w) = proposal"
    by blast
  then show ?thesis by simp
qed

theorem happy_path_witness:
  "\<exists>w. Run (new_world example_shard example_node (0::nat)
            [request_of actionBid, request_of actionRun, request_of actionPublish]) = Returned w
     \<and> entered w = [shardEnqueued, shardBidding, shardRunning, shardPublishingToVerifier,
                     shardVerifyingResults, shardPublishingToRequester, shardCompleted]
     \<and> calls w = [BidOnJob_call example_shard, RunShard_call example_shard,
                   ShardExecutionFinished_call ''job1'' 0 ''Got results proposal of length: 1'' [1],
                   PublishShard_call example_shard]"
proof -
  have "action (request_of actionBid) = actionBid" "action (request_of actionRun) = actionRun"
    "action (request_of actionPublish) = actionPublish"
    by (simp_all add: request_of_def)
  from happy_path[OF this example_node_ok, of "0::nat"] show ?thesis
    by (auto simp: example_shard_def finished_message_def Sprintf_d_def digits.simps digit_char_def)
qed

section \<open>Requests after the end\<close>

text \<open>
  Claim C4. A machine whose run has returned is in the state Completed and has closed its
  channel, which was open until then. Sending it any request is a no-op: the send panics,
  \<open>sendRequest\<close> recovers the panic and returns normally, leaving the machine, its calls and
  the states entered as they were and adding one warning to the log.
\<close>

theorem sendRequest_after_Completed:
  assumes "Run w0 = Returned w"
  shows "currentState (fsm w) = shardCompleted \<and> \<not> closed (req (fsm w0)) \<and> closed (req (fsm w))
     \<and> chan_send (req (fsm w)) request = Inl SendOnClosedChannel
     \<and> (\<exists>w'. sendRequest request w = Inr w' \<and> fsm w' = fsm w \<and> calls w' = calls w
            \<and> entered w' = entered w
            \<and> log w' = log w @ [(WarnLevel, ignoring_after_closed (fsm w) request)])"
  using Run_loop_Returned[of "Some EnqueuedState" w0 w] assms
  by (auto simp: Run_def sendRequest_def chan_send_def)

theorem sendRequest_after_Completed_witness:
  "\<exists>w. Run (new_world example_shard example_node (0::nat)
            [\<lparr> action = actionFail, failureReason = ''peer offline'' \<rparr>]) = Returned w
     \<and> (\<exists>w'. sendRequest (request_of actionPublish) w = Inr w' \<and> fsm w' = fsm w \<and> calls w' = calls w)"
proof -
  obtain w where r: "Run (new_world example_shard example_node (0::nat)
                       [\<lparr> action = actionFail, failureReason = ''peer offline'' \<rparr>]) = Returned w"
    using Fail_while_Enqueued_run[of example_shard example_node "0::nat" "''peer offline''"] by auto
  from sendRequest_after_Completed[OF r, of "request_of actionPublish"] r show ?thesis by auto
qed

section \<open>What a bid ends in\<close>

text \<open>
  Claim C2, as it is written: every machine with \<open>bidSent\<close> that reaches Completed has either
  told the verifier and published, or reported an error, never neither. A bid that is
  rejected refutes it: after Bid and Rejected the machine is Completed with \<open>bidSent\<close>, and
  its only call is \<open>BidOnJob\<close>.
\<close>

theorem rejected_bid_neither_outcome:
  "returned (Run (new_world example_shard example_node (0::nat) [request_of actionBid, request_of actionRejected]))
   \<and> bidSent (fsm (world_of (Run (new_world example_shard example_node (0::nat)
         [request_of actionBid, request_of actionRejected]))))
   \<and> currentState (fsm (world_of (Run (new_world example_shard example_node (0::nat)
         [request_of actionBid, request_of actionRejected])))) = shardCompleted
   \<and> calls (world_of (Run (new_world example_shard example_node (0::nat)
         [request_of actionBid, request_of actionRejected]))) = [BidOnJob_call example_shard]"
  by (simp add: Run_def new_world_def newStateMachine_def state_defs world_defs Let_def close_req_def
        request_of_def example_node_def)

text \<open>
  Claim C2, amended. For a machine with \<open>bidSent\<close> whose run has returned, the two outcomes
  never both happen: the verifier told and the shard published, in this order and both
  without error, and a \<open>ShardError\<close> sent. If the first happens, the calls are exactly
  \<open>BidOnJob\<close>, the run, \<open>ShardExecutionFinished\<close> and \<open>PublishShard\<close>, once each; if the second,
  exactly one \<open>ShardError\<close> is sent, as the last call. Neither happens exactly when the
  request that decided the Bidding state was Rejected, and then \<open>BidOnJob\<close> is the only call.
  The state from which Completed was entered tells the three apart.
\<close>

theorem outcome_of_bid:
  assumes "Run (new_world shard n requirements rs) = Returned w" and "bidSent (fsm w)"
  shows "\<not> (finished_and_published w \<and> error_sent w)
     \<and> (\<not> finished_and_published w \<and> \<not> error_sent w \<longleftrightarrow> bidding_decision rs = Some actionRejected)
     \<and> (bidding_decision rs = Some actionRejected \<longrightarrow> calls w = [BidOnJob_call shard])
     \<and> (finished_and_published w \<longleftrightarrow> results_published w)
     \<and> (error_sent w \<longleftrightarrow> error_reported w)
     \<and> (results_published w \<longleftrightarrow> previousState (fsm w) = shardPublishingToRequester)
     \<and> (error_reported w \<longleftrightarrow> previousState (fsm w) = shardError)
     \<and> (\<not> results_published w \<and> \<not> error_reported w \<longleftrightarrow> previousState (fsm w) = shardBidding)"
proof -
  from Inv_Run_loop[OF Inv_new_world[of shard n rs requirements], of w] assms
  have s: "Shard (fsm w) = shard"
    and o: "outcome (previousState (fsm w)) (bidding_decision rs) w"
    by (simp_all add: Inv_def Run_def bidding_decision_def)
  from outcome_cases[OF o] s show ?thesis
    by (auto simp: bid_rejected_def)
qed

theorem outcome_of_bid_witness:
  "(\<exists>w. Run (new_world example_shard example_node (0::nat)
            [request_of actionBid, request_of actionRun, request_of actionPublish]) = Returned w
     \<and> bidSent (fsm w) \<and> finished_and_published w \<and> \<not> error_sent w
     \<and> bidding_decision [request_of actionBid, request_of actionRun, request_of actionPublish]
         = Some actionRun)
   \<and> (\<exists>w. Run (new_world example_shard example_node (0::nat)
            [request_of actionBid, request_of actionRejected]) = Returned w
     \<and> bidSent (fsm w) \<and> \<not> finished_and_published w \<and> \<not> error_sent w
     \<and> bidding_decision [request_of actionBid, request_of actionRejected] = Some actionRejected
     \<and> calls w = [BidOnJob_call example_shard])"
proof -
  have "action (request_of actionBid) = actionBid" "action (request_of actionRun) = actionRun"
    "action (request_of actionPublish) = actionPublish"
    by (simp_all add: request_of_def)
  from happy_path_run[OF this example_node_ok, of "0::nat"] obtain w where
    r: "Run (new_world example_shard example_node (0::nat)
            [request_of actionBid, request_of actionRun, request_of actionPublish]) = Returned w"
    and b: "bidSent (fsm w)"
    and c: "calls w = [BidOnJob_call example_shard, RunShard_call example_shard,
                   ShardExecutionFinished_call (Job_ID example_shard) (Index example_shard)
                     (finished_message [1]) [1],
                   PublishShard_call example_shard]"
    by blast
  from c have e: "\<not> error_sent w" by (simp add: error_sent_def)
  have d: "bidding_decision [request_of actionBid, request_of actionRun, request_of actionPublish]
         = Some actionRun"
    by (simp add: bidding_decision_def request_of_def)
  from outcome_of_bid[OF r b] r b e d
  have first: "\<exists>w. Run (new_world example_shard example_node (0::nat)
            [request_of actionBid, request_of actionRun, request_of actionPublish]) = Returned w
     \<and> bidSent (fsm w) \<and> finished_and_published w \<and> \<not> error_sent w
     \<and> bidding_decision [request_of actionBid, request_of actionRun, request_of actionPublish]
         = Some actionRun"
    by auto
  from rejected_run obtain v where
    r': "Run (new_world example_shard example_node (0::nat)
            [request_of actionBid, request_of actionRejected]) = Returned v"
    and b': "bidSent (fsm v)"
    by blast
  have d': "bidding_decision [request_of actionBid, request_of actionRejected] = Some actionRejected"
    by (simp add: bidding_decision_def request_of_def)
  from outcome_of_bid[OF r' b'] r' b' d'
  have "\<exists>w. Run (new_world example_shard example_node (0::nat)
            [request_of actionBid, request_of actionRejected]) = Returned w
     \<and> bidSent (fsm w) \<and> \<not> finished_and_published w \<and> \<not> error_sent w
     \<and> bidding_decision [request_of actionBid, request_of actionRejected] = Some actionRejected
     \<and> calls w = [BidOnJob_call example_shard]"
    by auto
  with first show ?thesis by blast
qed

section \<open>The reaper\<close>

lemma cleanupCompleted_loop_eq:
  "cleanupCompleted_loop h states (index + length items) index items =
     (\<lambda>k. if k \<in> shard_ID_at h ` set (takeWhile (completed h) items) then None else states k,
      index + length (takeWhile (completed h) items))"
proof (induction items arbitrary: states index)
  case Nil
  then show ?case by simp
next
  case (Cons item rest)
  show ?case
  proof (cases "completed h item")
    case False
    then show ?thesis by (simp add: completed_def)
  next
    case True
    have "cleanupCompleted_loop h states (index + length (item # rest)) index (item # rest)
          = cleanupCompleted_loop h (states(shard_ID_at h item := None)) (Suc index + length rest) (Suc index) rest"
      using True by (simp add: completed_def shard_ID_at_def)
    also have "\<dots> = (\<lambda>k. if k \<in> shard_ID_at h ` set (takeWhile (completed h) rest) then None
                          else (states(shard_ID_at h item := None)) k,
                     Suc index + length (takeWhile (completed h) rest))"
      by (rule Cons.IH)
    finally show ?thesis using True by (auto simp: fun_eq_iff)
  qed
qed

lemma cleanupCompleted_eq:
  "cleanupCompleted h m =
     \<lparr> shardStates = (\<lambda>k. if k \<in> shard_ID_at h ` set (takeWhile (completed h) (shardStatesList m))
                           then None else shardStates m k),
       shardStatesList = dropWhile (completed h) (shardStatesList m) \<rparr>"
  using cleanupCompleted_loop_eq[of h "shardStates m" 0 "shardStatesList m"]
  by (simp add: cleanupCompleted_def dropWhile_eq_drop)

lemma example_states:
  "currentState (machines example_heap 0) = shardCompleted"
  "currentState (machines example_heap 1) = shardVerifyingResults"
  "currentState (machines example_heap (Suc 0)) = shardVerifyingResults"
  "currentState (machines example_heap 2) = shardCompleted"
  "currentState (machines example_heap 3) = shardRunning"
  by (simp_all add: example_heap_def machine_in_def)

lemma example_IDs:
  "shard_ID_at example_heap 0 = ''job1:0''"
  by (simp add: example_heap_def machine_in_def newStateMachine_def shard_ID_at_def JobShard_ID_def
        example_shard_def Sprintf_d_def digits.simps digit_char_def)

lemma example_list: "shardStatesList example_manager = [0, 1, 2, 3]"
  by (simp add: example_manager_def)

text \<open>
  Claim C6. \<open>cleanupCompleted\<close> removes from the front of the list exactly the longest
  run of Completed machines: the old list is that run followed by the new list, the new
  list starts with a machine that is not Completed (so a Completed machine behind it
  stays), the survivors keep their order, and the map loses exactly the shard IDs of the
  machines removed.
\<close>

theorem cleanupCompleted_removes_completed_prefix:
  "shardStatesList m = takeWhile (completed h) (shardStatesList m) @ shardStatesList (cleanupCompleted h m)
   \<and> (\<forall>item \<in> set (takeWhile (completed h) (shardStatesList m)). completed h item)
   \<and> (shardStatesList (cleanupCompleted h m) \<noteq> [] \<longrightarrow> \<not> completed h (hd (shardStatesList (cleanupCompleted h m))))
   \<and> shardStatesList (cleanupCompleted h m) = dropWhile (completed h) (shardStatesList m)
   \<and> (\<forall>k. shardStates (cleanupCompleted h m) k =
           (if k \<in> shard_ID_at h ` set (takeWhile (completed h) (shardStatesList m)) then None
            else shardStates m k))"
  by (auto simp: cleanupCompleted_eq hd_dropWhile dest: set_takeWhileD)

theorem cleanupCompleted_removes_completed_prefix_witness:
  "shardStatesList (cleanupCompleted example_heap example_manager) = [1, 2, 3]
   \<and> completed example_heap 2
   \<and> shardStates (cleanupCompleted example_heap example_manager) ''job1:0'' = None
   \<and> shardStates (cleanupCompleted example_heap example_manager) ''job1:2'' = Some 2"
proof -
  have t: "takeWhile (completed example_heap) (shardStatesList example_manager) = [0]"
    and d: "dropWhile (completed example_heap) (shardStatesList example_manager) = [1, 2, 3]"
    by (simp_all add: example_list completed_def example_states)
  from cleanupCompleted_removes_completed_prefix[of example_manager example_heap]
  have l: "shardStatesList (cleanupCompleted example_heap example_manager)
             = dropWhile (completed example_heap) (shardStatesList example_manager)"
    and k: "\<And>k. shardStates (cleanupCompleted example_heap example_manager) k =
           (if k \<in> shard_ID_at example_heap ` set (takeWhile (completed example_heap) (shardStatesList example_manager))
            then None else shardStates example_manager k)"
    by blast+
  have "shardStates example_manager ''job1:2'' = Some 2"
    by (simp add: example_manager_def)
  with l k[of "''job1:0''"] k[of "''job1:2''"] show ?thesis
    by (simp add: t d example_IDs completed_def example_states)
qed

section \<open>The active machines\<close>

lemma GetActive_loop_eq: "GetActive_loop h acc items = acc @ filter (active h) items"
  by (induction items arbitrary: acc) (simp_all add: active_def)

lemma filter_dropWhile_disjoint:
  "(\<And>x. P x \<Longrightarrow> \<not> Q x) \<Longrightarrow> filter P (dropWhile Q xs) = filter P xs"
  by (induction xs) auto

lemma iterate_eq: "iterate handler h items a = foldl (\<lambda>acc i. handler (capacity (machines h i)) acc) a items"
  by (induction items arbitrary: a) simp_all

lemma GetActive_eq: "fst (GetActive h m) = filter (active h) (shardStatesList m)"
proof -
  have "filter (active h) (dropWhile (completed h) (shardStatesList m)) = filter (active h) (shardStatesList m)"
    by (rule filter_dropWhile_disjoint) (auto simp: active_def completed_def)
  then show ?thesis
    by (simp add: GetActive_def Let_def GetActive_loop_eq cleanupCompleted_eq)
qed

lemma foldl_collect: "foldl (\<lambda>acc i. collect (f i) acc) seen items = seen @ map f items"
  by (induction items arbitrary: seen) (simp_all add: collect_def)

text \<open>
  Claim C1, as it is written: a machine in any of the states Bidding, Running,
  PublishingToVerifier, VerifyingResults, PublishingToRequester is returned by
  \<open>GetActive\<close> and visited by \<open>ActiveIterator\<close>. Machine 1 of the example is in the
  list and in the state VerifyingResults; \<open>GetActive\<close> returns machine 3 only, and the
  iterator visits only its capacity item.
\<close>

theorem GetActive_counterexample:
  "1 \<in> set (shardStatesList example_manager)
   \<and> currentState (machines example_heap 1) = shardVerifyingResults
   \<and> fst (GetActive example_heap example_manager) = [3]
   \<and> fst (ActiveIterator collect example_heap example_manager []) = [capacity (machines example_heap 3)]"
  by (simp add: GetActive_def ActiveIterator_def cleanupCompleted_def Let_def example_list example_states
        collect_def)


text \<open>
  Claim C1, amended. \<open>GetActive\<close> returns, in the order of the list, exactly the machines
  of the list whose state is Bidding or Running, and \<open>ActiveIterator\<close> calls the handler
  on the capacity item of exactly these, in this order; machines in the states
  PublishingToVerifier, VerifyingResults and PublishingToRequester are not among them.
\<close>

theorem GetActive_Bidding_or_Running:
  "fst (GetActive h m) = filter (active h) (shardStatesList m)
   \<and> (\<forall>i \<in> set (shardStatesList m).
         i \<in> set (fst (GetActive h m)) \<longleftrightarrow>
           currentState (machines h i) = shardBidding \<or> currentState (machines h i) = shardRunning)
   \<and> fst (ActiveIterator handler h m a) =
        foldl (\<lambda>acc i. handler (capacity (machines h i)) acc) a (filter (active h) (shardStatesList m))
   \<and> fst (ActiveIterator collect h m []) = map (\<lambda>i. capacity (machines h i)) (filter (active h) (shardStatesList m))"
  using foldl_collect[of "\<lambda>i. capacity (machines h i)" "[]"]
  by (auto simp: GetActive_eq ActiveIterator_def Let_def iterate_eq active_def)

theorem GetActive_Bidding_or_Running_witness:
  "3 \<in> set (shardStatesList example_manager) \<and> currentState (machines example_heap 3) = shardRunning
   \<and> 3 \<in> set (fst (GetActive example_heap example_manager))"
  using GetActive_Bidding_or_Running[of example_heap example_manager collect "[]"]
  by (simp add: example_list example_states active_def)

section \<open>Starting a machine once\<close>

lemma StartShardStateIfNecessery_absent:
  assumes "shardStates m (JobShard_ID shard) = None"
  shows "StartShardStateIfNecessery shard n requirements (m, h) =
     (m\<lparr> shardStates := (shardStates m)(JobShard_ID shard \<mapsto> allocated h),
         shardStatesList := shardStatesList m @ [allocated h] \<rparr>,
      h\<lparr> machines := (machines h)(allocated h := newStateMachine shard n requirements),
         allocated := Suc (allocated h),
         goroutines := goroutines h @ [allocated h] \<rparr>)"
  using assms by (simp add: StartShardStateIfNecessery_def Let_def)

lemma StartShardStateIfNecessery_present:
  assumes "shardStates m (JobShard_ID shard) = Some a"
  shows "StartShardStateIfNecessery shard n requirements (m, h) = (m, h)"
  using assms by (simp add: StartShardStateIfNecessery_def Let_def)

lemma StartShardStateIfNecessery_registers:
  "shardStates (fst (StartShardStateIfNecessery shard n requirements mh)) (JobShard_ID shard) \<noteq> None"
  by (cases mh) (auto simp: StartShardStateIfNecessery_def Let_def split: option.splits)

lemma StartShardStateIfNecessery_again:
  "StartShardStateIfNecessery shard n' requirements' (StartShardStateIfNecessery shard n requirements mh)
     = StartShardStateIfNecessery shard n requirements mh"
proof -
  obtain m' h' where r: "StartShardStateIfNecessery shard n requirements mh = (m', h')"
    by (cases "StartShardStateIfNecessery shard n requirements mh")
  with StartShardStateIfNecessery_registers[of shard n requirements mh]
  obtain a where "shardStates m' (JobShard_ID shard) = Some a" by auto
  with r show ?thesis by (simp add: StartShardStateIfNecessery_present)
qed

lemma StartShardStateIfNecessery_funpow:
  "(StartShardStateIfNecessery shard n requirements ^^ Suc k) (mh :: shardStateMachineManager \<times> 'r heap)
     = StartShardStateIfNecessery shard n requirements mh"
  by (induction k) (simp_all add: StartShardStateIfNecessery_again)

lemma StartShardStateIfNecessery_one_entry:
  assumes "shardStates m (JobShard_ID shard) = None"
    and "\<forall>a \<in> set (shardStatesList m). a < allocated h \<and> shard_ID_at h a \<noteq> JobShard_ID shard"
  shows "filter (\<lambda>a. shard_ID_at (snd (StartShardStateIfNecessery shard n requirements (m, h))) a = JobShard_ID shard)
           (shardStatesList (fst (StartShardStateIfNecessery shard n requirements (m, h)))) = [allocated h]"
proof -
  have "filter (\<lambda>a. shard_ID_at (h\<lparr> machines := (machines h)(allocated h := newStateMachine shard n requirements),
                                      allocated := Suc (allocated h),
                                      goroutines := goroutines h @ [allocated h] \<rparr>) a = JobShard_ID shard)
          (shardStatesList m) = []"
    using assms(2) by (auto simp: filter_empty_conv shard_ID_at_def)
  then show ?thesis
    by (simp add: StartShardStateIfNecessery_absent[OF assms(1)] shard_ID_at_def newStateMachine_def)
qed

text \<open>
  Claim C5. Calling \<open>StartShardStateIfNecessery\<close> for a shard N times, N at least 1, has the
  effect of calling it once, and a further call, with whatever node and requirements,
  changes nothing. When the shard's ID is not in the map, the N calls create one machine,
  at one new address, put it in the map under the ID and at the end of the list, and
  launch one goroutine for it; if no machine of the list had this ID, exactly one has it
  afterwards. When the ID is in the map, the calls change nothing.
\<close>

theorem StartShardStateIfNecessery_idempotent:
  assumes "1 \<le> N"
  shows "(StartShardStateIfNecessery shard n requirements ^^ N) (m, h)
           = StartShardStateIfNecessery shard n requirements (m, h)
     \<and> StartShardStateIfNecessery shard n' requirements' (StartShardStateIfNecessery shard n requirements (m, h))
           = StartShardStateIfNecessery shard n requirements (m, h)
     \<and> (shardStates m (JobShard_ID shard) = None \<longrightarrow>
          (StartShardStateIfNecessery shard n requirements ^^ N) (m, h) =
            (m\<lparr> shardStates := (shardStates m)(JobShard_ID shard \<mapsto> allocated h),
                shardStatesList := shardStatesList m @ [allocated h] \<rparr>,
             h\<lparr> machines := (machines h)(allocated h := newStateMachine shard n requirements),
                allocated := Suc (allocated h),
                goroutines := goroutines h @ [allocated h] \<rparr>))
     \<and> (shardStates m (JobShard_ID shard) = None
          \<and> (\<forall>a \<in> set (shardStatesList m). a < allocated h \<and> shard_ID_at h a \<noteq> JobShard_ID shard) \<longrightarrow>
          filter (\<lambda>a. shard_ID_at (snd ((StartShardStateIfNecessery shard n requirements ^^ N) (m, h))) a
                        = JobShard_ID shard)
            (shardStatesList (fst ((StartShardStateIfNecessery shard n requirements ^^ N) (m, h))))
          = [allocated h])
     \<and> (shardStates m (JobShard_ID shard) \<noteq> None \<longrightarrow>
          (StartShardStateIfNecessery shard n requirements ^^ N) (m, h) = (m, h))"
proof -
  from assms obtain k where "N = Suc k" by (cases N) auto
  then have f: "(StartShardStateIfNecessery shard n requirements ^^ N) (m, h)
           = StartShardStateIfNecessery shard n requirements (m, h)"
    using StartShardStateIfNecessery_funpow[of k shard n requirements "(m, h)"] by simp
  show ?thesis
    unfolding f
    using StartShardStateIfNecessery_one_entry[of m shard h n requirements]
    by (auto simp: StartShardStateIfNecessery_again StartShardStateIfNecessery_absent
          StartShardStateIfNecessery_present)
qed

theorem StartShardStateIfNecessery_idempotent_witness:
  "(1::nat) \<le> 3 \<and> shardStates NewShardComputeStateMachineManager (JobShard_ID example_shard) = None
   \<and> (StartShardStateIfNecessery example_shard example_node (1::nat) ^^ 3)
      (NewShardComputeStateMachineManager, empty_heap)
   = (\<lparr> shardStates = [JobShard_ID example_shard \<mapsto> 0], shardStatesList = [0] \<rparr>,
      \<lparr> machines = (machines empty_heap)(0 := newStateMachine example_shard example_node 1),
        allocated = 1, goroutines = [0] \<rparr>)"
proof -
  have a: "shardStates NewShardComputeStateMachineManager (JobShard_ID example_shard) = None"
    by (simp add: NewShardComputeStateMachineManager_def)
  have "(1::nat) \<le> 3" by simp
  from StartShardStateIfNecessery_idempotent[OF this, of example_shard example_node "1::nat"
          NewShardComputeStateMachineManager empty_heap example_node "1::nat"] a
  have "(StartShardStateIfNecessery example_shard example_node (1::nat) ^^ 3)
      (NewShardComputeStateMachineManager, empty_heap) =
      (NewShardComputeStateMachineManager\<lparr> shardStates := (shardStates NewShardComputeStateMachineManager)(JobShard_ID example_shard \<mapsto> allocated empty_heap),
                shardStatesList := shardStatesList NewShardComputeStateMachineManager @ [allocated empty_heap] \<rparr>,
             empty_heap\<lparr> machines := (machines empty_heap)(allocated empty_heap := newStateMachine example_shard example_node 1),
                allocated := Suc (allocated empty_heap),
                goroutines := goroutines empty_heap @ [allocated empty_heap] \<rparr>)"
    by blast
  with a show ?thesis
    by (simp add: NewShardComputeStateMachineManager_def empty_heap_def)
qed


section \<open>Decimal text\<close>

lemma results_perm: "OS_ALL_R OR OS_USER_RW = (420 :: FileMode)"
  by (simp add: OS_ALL_R_def OS_USER_RW_def OS_USER_R_def OS_USER_W_def OS_GROUP_R_def OS_OTH_R_def
        OS_READ_def OS_WRITE_def OS_USER_SHIFT_def OS_GROUP_SHIFT_def OS_OTH_SHIFT_def)

lemma digit_char_in: "digit_char d \<in> set ''0123456789''"
proof -
  have "d mod 10 < 10" by simp
  then have "d mod 10 \<in> {0, 1, 2, 3, 4, 5, 6, 7, 8, 9}" by (simp only: insert_iff empty_iff) presburger
  then show ?thesis by (auto simp: digit_char_def)
qed

lemma digit_value_digit_char: "digit_value (digit_char d) = Some (d mod 10)"
proof -
  have "d mod 10 < 10" by simp
  then have "d mod 10 \<in> {0, 1, 2, 3, 4, 5, 6, 7, 8, 9}" by (simp only: insert_iff empty_iff) presburger
  then show ?thesis by (auto simp: digit_char_def digit_value_def)
qed

lemma digits_set: "set (digits n) \<subseteq> set ''0123456789''"
proof (induction n rule: digits.induct)
  case (1 n)
  show ?case
  proof (cases "n < 10")
    case True
    then show ?thesis using digit_char_in[of n] by (subst digits.simps) simp
  next
    case False
    with 1 show ?thesis using digit_char_in[of n] by (subst digits.simps) simp
  qed
qed

lemma digits_not_Nil: "digits n \<noteq> []"
  by (subst digits.simps) simp

lemma parse_digits_snoc:
  "parse_digits acc (cs @ [c]) =
     (case parse_digits acc cs of
        None \<Rightarrow> None
      | Some a \<Rightarrow> (case digit_value c of None \<Rightarrow> None | Some d \<Rightarrow> Some (10 * a + d)))"
  by (induction cs arbitrary: acc) (auto split: option.splits)

lemma parse_digits_digits: "parse_digits 0 (digits n) = Some n"
proof (induction n rule: digits.induct)
  case (1 n)
  show ?case
  proof (cases "n < 10")
    case True
    then show ?thesis by (subst digits.simps) (simp add: digit_value_digit_char)
  next
    case False
    with 1 have "parse_digits 0 (digits (n div 10)) = Some (n div 10)" by simp
    with False show ?thesis
      by (subst digits.simps) (simp add: parse_digits_snoc digit_value_digit_char)
  qed
qed

lemma hd_digits: "hd (digits n) \<noteq> CHR ''-''"
proof -
  have "hd (digits n) \<in> set (digits n)" using digits_not_Nil by simp
  with digits_set[of n] show ?thesis by auto
qed

lemma parse_decimal_Sprintf_d: "parse_decimal (Sprintf_d i) = Some i"
proof (cases "i < 0")
  case True
  then show ?thesis
    using digits_not_Nil[of "nat (- i)"]
    by (simp add: parse_decimal_def Sprintf_d_def parse_digits_digits)
next
  case False
  then show ?thesis
    using digits_not_Nil[of "nat i"] hd_digits[of "nat i"]
    by (auto simp: parse_decimal_def Sprintf_d_def parse_digits_digits)
qed

lemma Sprintf_d_no_newline: "CHR 0x0A \<notin> set (Sprintf_d i)"
  using digits_set[of "nat i"] digits_set[of "nat (- i)"]
  by (auto simp: Sprintf_d_def)

lemma Sprintf_d_0: "Sprintf_d 0 = ''0''"
  by (simp add: Sprintf_d_def digits.simps digit_char_def)


section \<open>The results of a shard on disk\<close>

lemma host_files_host_Msg [simp]: "host_files (host_Msg l t hst) = host_files hst"
  by (simp add: host_Msg_def)

lemma host_files_cleanupJob [simp]: "host_files (cleanupJob e shard hst) = host_files hst"
  by (simp add: cleanupJob_def split: option.splits)

lemma RunShard_collect_written:
  assumes "docker_logs e c = Inr (out, errs)"
    and "WriteFile_error e (dir @ ''/exitCode'') = None"
    and "WriteFile_error e (dir @ ''/stdout'') = None"
    and "WriteFile_error e (dir @ ''/stderr'') = None"
  shows "fst (RunShard_collect e dir c hst) =
           (if containerExitStatusCode (ContainerWait e c) \<noteq> 0
            then Some (case wait_containerError (ContainerWait e c) of
                         None \<Rightarrow> ''exit code was not zero: ''
                                   @ Sprintf_d (sint (containerExitStatusCode (ContainerWait e c)))
                       | Some err \<Rightarrow> err)
            else wait_containerError (ContainerWait e c))"
    and "host_files (snd (RunShard_collect e dir c hst)) (dir @ ''/exitCode'') =
           Some (Sprintf_d (sint (containerExitStatusCode (ContainerWait e c))), OS_ALL_R OR OS_USER_RW)"
    and "host_files (snd (RunShard_collect e dir c hst)) (dir @ ''/stdout'') = Some (out, OS_ALL_R OR OS_USER_RW)"
    and "host_files (snd (RunShard_collect e dir c hst)) (dir @ ''/stderr'') = Some (errs, OS_ALL_R OR OS_USER_RW)"
  using assms
  by (simp_all add: RunShard_collect_def WriteFile_def Let_def split: option.splits)

lemma RunShard_collect_None:
  assumes "fst (RunShard_collect e dir c hst) = None"
  shows "\<exists>out errs. docker_logs e c = Inr (out, errs)
     \<and> WriteFile_error e (dir @ ''/exitCode'') = None
     \<and> WriteFile_error e (dir @ ''/stdout'') = None
     \<and> WriteFile_error e (dir @ ''/stderr'') = None
     \<and> ContainerWait e c = WaitStatus 0 None"
proof (cases "docker_logs e c")
  case (Inl err)
  with assms show ?thesis by (simp add: RunShard_collect_def Let_def)
next
  case (Inr p)
  obtain out errs where p: "p = (out, errs)" by (cases p)
  have w: "WriteFile_error e (dir @ ''/exitCode'') = None \<and> WriteFile_error e (dir @ ''/stdout'') = None
     \<and> WriteFile_error e (dir @ ''/stderr'') = None"
    using assms Inr p
    by (auto simp: RunShard_collect_def WriteFile_def Let_def split: option.splits if_splits)
  with RunShard_collect_written(1)[of e c out errs dir hst] Inr p assms
  have "ContainerWait e c = WaitStatus 0 None"
    by (cases "ContainerWait e c") (auto split: if_splits)
  with w Inr p show ?thesis by simp
qed

lemmas executor_defs = docker_RunShard_def RunShard_start_def RunShard_collect_def cleanupJob_def
  pull_image_def WriteFile_def host_Msg_def jobContainerName_def Let_def

text \<open>
  Claim C9. Whenever \<open>RunShard\<close> of the Docker executor has started the container, read
  its logs and written the three files, whatever the exit status and whatever it then
  returns, the results directory holds \<open>exitCode\<close> with the exit status of the container
  printed in decimal (the text reads back as the status and holds no newline), and
  \<open>stdout\<close> and \<open>stderr\<close> with the text captured, each written with the permission bits
  0644 (420): read and write for the owner, read for group and others; and it returns the
  error of the container, which for a non-zero status is never \<open>nil\<close>. A return without
  error is such a run, with the exit status 0.
\<close>

theorem RunShard_result_files:
  "(RunShard_start e shard dir hst = (Inr jobContainer, h1)
      \<and> docker_logs e jobContainer = Inr (out, errs)
      \<and> WriteFile_error e (dir @ ''/exitCode'') = None
      \<and> WriteFile_error e (dir @ ''/stdout'') = None
      \<and> WriteFile_error e (dir @ ''/stderr'') = None
    \<longrightarrow> host_files (snd (docker_RunShard e shard dir hst)) (dir @ ''/exitCode'') =
          Some (Sprintf_d (sint (containerExitStatusCode (ContainerWait e jobContainer))),
                OS_ALL_R OR OS_USER_RW)
      \<and> parse_decimal (Sprintf_d (sint (containerExitStatusCode (ContainerWait e jobContainer))))
          = Some (sint (containerExitStatusCode (ContainerWait e jobContainer)))
      \<and> CHR 0x0A \<notin> set (Sprintf_d (sint (containerExitStatusCode (ContainerWait e jobContainer))))
      \<and> host_files (snd (docker_RunShard e shard dir hst)) (dir @ ''/stdout'')
          = Some (out, OS_ALL_R OR OS_USER_RW)
      \<and> host_files (snd (docker_RunShard e shard dir hst)) (dir @ ''/stderr'')
          = Some (errs, OS_ALL_R OR OS_USER_RW)
      \<and> fst (docker_RunShard e shard dir hst) =
          (if containerExitStatusCode (ContainerWait e jobContainer) \<noteq> 0
           then Some (case wait_containerError (ContainerWait e jobContainer) of
                        None \<Rightarrow> ''exit code was not zero: ''
                                  @ Sprintf_d (sint (containerExitStatusCode (ContainerWait e jobContainer)))
                      | Some err \<Rightarrow> err)
           else wait_containerError (ContainerWait e jobContainer)))
   \<and> (docker_RunShard e shard dir hst = (None, hst')
    \<longrightarrow> (\<exists>c h out' errs'.
          RunShard_start e shard dir hst = (Inr c, h)
        \<and> ContainerWait e c = WaitStatus 0 None
        \<and> docker_logs e c = Inr (out', errs')
        \<and> WriteFile_error e (dir @ ''/exitCode'') = None
        \<and> WriteFile_error e (dir @ ''/stdout'') = None
        \<and> WriteFile_error e (dir @ ''/stderr'') = None
        \<and> host_files hst' (dir @ ''/exitCode'') = Some (''0'', OS_ALL_R OR OS_USER_RW)
        \<and> host_files hst' (dir @ ''/stdout'') = Some (out', OS_ALL_R OR OS_USER_RW)
        \<and> host_files hst' (dir @ ''/stderr'') = Some (errs', OS_ALL_R OR OS_USER_RW)))
   \<and> OS_ALL_R OR OS_USER_RW = (420 :: FileMode)"
proof (intro conjI impI)
  assume a: "RunShard_start e shard dir hst = (Inr jobContainer, h1)
      \<and> docker_logs e jobContainer = Inr (out, errs)
      \<and> WriteFile_error e (dir @ ''/exitCode'') = None
      \<and> WriteFile_error e (dir @ ''/stdout'') = None
      \<and> WriteFile_error e (dir @ ''/stderr'') = None"
  then have l: "docker_logs e jobContainer = Inr (out, errs)"
    and w: "WriteFile_error e (dir @ ''/exitCode'') = None" "WriteFile_error e (dir @ ''/stdout'') = None"
       "WriteFile_error e (dir @ ''/stderr'') = None"
    and r: "docker_RunShard e shard dir hst =
              (fst (RunShard_collect e dir jobContainer h1),
               cleanupJob e shard (snd (RunShard_collect e dir jobContainer h1)))"
    by (simp_all add: docker_RunShard_def Let_def)
  from RunShard_collect_written[OF l w, of h1] r
  show "host_files (snd (docker_RunShard e shard dir hst)) (dir @ ''/exitCode'') =
          Some (Sprintf_d (sint (containerExitStatusCode (ContainerWait e jobContainer))),
                OS_ALL_R OR OS_USER_RW)"
    and "host_files (snd (docker_RunShard e shard dir hst)) (dir @ ''/stdout'')
          = Some (out, OS_ALL_R OR OS_USER_RW)"
    and "host_files (snd (docker_RunShard e shard dir hst)) (dir @ ''/stderr'')
          = Some (errs, OS_ALL_R OR OS_USER_RW)"
    and "fst (docker_RunShard e shard dir hst) =
          (if containerExitStatusCode (ContainerWait e jobContainer) \<noteq> 0
           then Some (case wait_containerError (ContainerWait e jobContainer) of
                        None \<Rightarrow> ''exit code was not zero: ''
                                  @ Sprintf_d (sint (containerExitStatusCode (ContainerWait e jobContainer)))
                      | Some err \<Rightarrow> err)
           else wait_containerError (ContainerWait e jobContainer))"
    by simp_all
  show "parse_decimal (Sprintf_d (sint (containerExitStatusCode (ContainerWait e jobContainer))))
          = Some (sint (containerExitStatusCode (ContainerWait e jobContainer)))"
    by (rule parse_decimal_Sprintf_d)
  show "CHR 0x0A \<notin> set (Sprintf_d (sint (containerExitStatusCode (ContainerWait e jobContainer))))"
    by (rule Sprintf_d_no_newline)
next
  assume a: "docker_RunShard e shard dir hst = (None, hst')"
  then obtain c h where s: "RunShard_start e shard dir hst = (Inr c, h)"
    and n: "fst (RunShard_collect e dir c h) = None"
    and h: "hst' = cleanupJob e shard (snd (RunShard_collect e dir c h))"
    by (auto simp: docker_RunShard_def Let_def split: prod.splits sum.splits)
  from RunShard_collect_None[OF n] obtain out' errs' where l: "docker_logs e c = Inr (out', errs')"
    and w: "WriteFile_error e (dir @ ''/exitCode'') = None" "WriteFile_error e (dir @ ''/stdout'') = None"
       "WriteFile_error e (dir @ ''/stderr'') = None"
    and c: "ContainerWait e c = WaitStatus 0 None"
    by blast
  from RunShard_collect_written(2-4)[OF l w, of h] s l w c h
  show "\<exists>c h out' errs'.
          RunShard_start e shard dir hst = (Inr c, h)
        \<and> ContainerWait e c = WaitStatus 0 None
        \<and> docker_logs e c = Inr (out', errs')
        \<and> WriteFile_error e (dir @ ''/exitCode'') = None
        \<and> WriteFile_error e (dir @ ''/stdout'') = None
        \<and> WriteFile_error e (dir @ ''/stderr'') = None
        \<and> host_files hst' (dir @ ''/exitCode'') = Some (''0'', OS_ALL_R OR OS_USER_RW)
        \<and> host_files hst' (dir @ ''/stdout'') = Some (out', OS_ALL_R OR OS_USER_RW)
        \<and> host_files hst' (dir @ ''/stderr'') = Some (errs', OS_ALL_R OR OS_USER_RW)"
    by (simp add: Sprintf_d_0)
next
  show "OS_ALL_R OR OS_USER_RW = (420 :: FileMode)" by (rule results_perm)
qed

lemma example_RunShard_start:
  "RunShard_start example_executor example_shard ''/results'' empty_host
     = (Inr ''bacalhau-exec1-job1-0'', empty_host)"
  "RunShard_start ok_executor example_shard ''/results'' empty_host
     = (Inr ''bacalhau-exec1-job1-0'', empty_host)"
  by (simp_all add: executor_defs ok_executor_def example_executor_def example_shard_def
        Sprintf_d_def digits.simps digit_char_def)

theorem RunShard_result_files_witness:
  "host_files (snd (docker_RunShard example_executor example_shard ''/results'' empty_host)) ''/results/exitCode''
       = Some (''1'', 420)
   \<and> host_files (snd (docker_RunShard example_executor example_shard ''/results'' empty_host)) ''/results/stdout''
       = Some (''out'', 420)
   \<and> host_files (snd (docker_RunShard example_executor example_shard ''/results'' empty_host)) ''/results/stderr''
       = Some (''err'', 420)
   \<and> fst (docker_RunShard example_executor example_shard ''/results'' empty_host)
       = Some ''exit code was not zero: 1''
   \<and> fst (docker_RunShard ok_executor example_shard ''/results'' empty_host) = None
   \<and> host_files (snd (docker_RunShard ok_executor example_shard ''/results'' empty_host)) ''/results/exitCode''
       = Some (''0'', 420)"
proof -
  have x: "docker_logs example_executor ''bacalhau-exec1-job1-0'' = Inr (''out'', ''err'')"
    "WriteFile_error example_executor (''/results'' @ ''/exitCode'') = None"
    "WriteFile_error example_executor (''/results'' @ ''/stdout'') = None"
    "WriteFile_error example_executor (''/results'' @ ''/stderr'') = None"
    and c: "ContainerWait example_executor ''bacalhau-exec1-job1-0'' = WaitStatus 1 None"
    by (simp_all add: example_executor_def)
  have one: "Sprintf_d (sint (1 :: 64 word)) = ''1''"
    by (simp add: Sprintf_d_def digits.simps digit_char_def)
  have n: "fst (docker_RunShard ok_executor example_shard ''/results'' empty_host) = None"
    by (simp add: executor_defs ok_executor_def example_executor_def example_shard_def empty_host_def)
  then have r: "docker_RunShard ok_executor example_shard ''/results'' empty_host
                  = (None, snd (docker_RunShard ok_executor example_shard ''/results'' empty_host))"
    by (cases "docker_RunShard ok_executor example_shard ''/results'' empty_host") simp
  from RunShard_result_files[of example_executor example_shard "''/results''" empty_host
         "''bacalhau-exec1-job1-0''" empty_host "''out''" "''err''"]
       example_RunShard_start(1) x c one
  have first: "host_files (snd (docker_RunShard example_executor example_shard ''/results'' empty_host)) ''/results/exitCode''
       = Some (''1'', 420)
   \<and> host_files (snd (docker_RunShard example_executor example_shard ''/results'' empty_host)) ''/results/stdout''
       = Some (''out'', 420)
   \<and> host_files (snd (docker_RunShard example_executor example_shard ''/results'' empty_host)) ''/results/stderr''
       = Some (''err'', 420)
   \<and> fst (docker_RunShard example_executor example_shard ''/results'' empty_host)
       = Some ''exit code was not zero: 1''"
    by simp
  from RunShard_result_files[of ok_executor example_shard "''/results''" empty_host
         "''bacalhau-exec1-job1-0''" empty_host "''out''" "''err''"
         "snd (docker_RunShard ok_executor example_shard ''/results'' empty_host)"] r
  have "host_files (snd (docker_RunShard ok_executor example_shard ''/results'' empty_host)) ''/results/exitCode''
       = Some (''0'', 420)"
    by (auto simp: results_perm)
  with first n show ?thesis by simp
qed

section \<open>A container that exits with a non-zero status\<close>

text \<open>
  Claim C8. When the container exits with a non-zero status and no error of its own, and
  the logs and the three files are written, \<open>RunShard\<close> of the Docker executor has
  recorded the status in \<open>exitCode\<close>, where it reads back as that non-zero number, and
  reports it as the error "exit code was not zero". The run of the shard by the node
  still succeeds with a proposal, and a machine on this node goes from Running to
  PublishingToVerifier with that proposal. The Running state reads nothing but the result
  of the node's \<open>RunShard\<close>: it enters PublishingToVerifier exactly when that is a proposal
  and Error exactly when it is an error, so the exit status by itself never sends the
  machine to Error.
\<close>

theorem nonzero_exit_still_publishes:
  assumes "RunShard_start e shard dir hst = (Inr jobContainer, h1)"
    and "ContainerWait e jobContainer = WaitStatus code None" and "code \<noteq> 0"
    and "docker_logs e jobContainer = Inr (out, errs)"
    and "WriteFile_error e (dir @ ''/exitCode'') = None"
    and "WriteFile_error e (dir @ ''/stdout'') = None"
    and "WriteFile_error e (dir @ ''/stderr'') = None"
  shows "host_files (snd (docker_RunShard e shard dir hst)) (dir @ ''/exitCode'')
          = Some (Sprintf_d (sint code), OS_ALL_R OR OS_USER_RW)
     \<and> parse_decimal (Sprintf_d (sint code)) = Some (sint code) \<and> sint code \<noteq> 0
     \<and> fst (docker_RunShard e shard dir hst) = Some (''exit code was not zero: '' @ Sprintf_d (sint code))
     \<and> ComputeNode_RunShard e dir GetShardProposal hst shard
          = Inr (GetShardProposal (snd (docker_RunShard e shard dir hst)))
     \<and> (Shard (fsm w) = shard \<and> RunShard (node (fsm w)) = ComputeNode_RunShard e dir GetShardProposal hst
          \<longrightarrow> (\<exists>w'. runningState w = Next (Some PublishingToVerifierState) w'
                  \<and> resultProposal (fsm w') = GetShardProposal (snd (docker_RunShard e shard dir hst))
                  \<and> entered w' = entered w @ [shardRunning]
                  \<and> errorMsg (fsm w') = errorMsg (fsm w)))
     \<and> (goes_to (runningState w) (Some PublishingToVerifierState)
          \<longleftrightarrow> (\<exists>proposal. RunShard (node (fsm w)) (Shard (fsm w)) = Inr proposal))
     \<and> (goes_to (runningState w) (Some ErrorState)
          \<longleftrightarrow> (\<exists>err. RunShard (node (fsm w)) (Shard (fsm w)) = Inl err))"
proof -
  from RunShard_collect_written(1,2)[OF assms(4-7), of h1] assms(1-3)
  have r: "fst (docker_RunShard e shard dir hst) = Some (''exit code was not zero: '' @ Sprintf_d (sint code))"
    and f: "host_files (snd (docker_RunShard e shard dir hst)) (dir @ ''/exitCode'')
          = Some (Sprintf_d (sint code), OS_ALL_R OR OS_USER_RW)"
    by (simp_all add: docker_RunShard_def Let_def)
  from r f have g: "ComputeNode_RunShard e dir GetShardProposal hst shard
          = Inr (GetShardProposal (snd (docker_RunShard e shard dir hst)))"
    by (cases "docker_RunShard e shard dir hst")
       (simp add: ComputeNode_RunShard_def reports_nonzero_exit_def)
  have z: "sint code \<noteq> 0" using assms(3) by (simp add: signed_eq_0_iff)
  have t: "goes_to (runningState w) (Some PublishingToVerifierState)
          \<longleftrightarrow> (\<exists>proposal. RunShard (node (fsm w)) (Shard (fsm w)) = Inr proposal)"
    "goes_to (runningState w) (Some ErrorState)
          \<longleftrightarrow> (\<exists>err. RunShard (node (fsm w)) (Shard (fsm w)) = Inl err)"
    by (auto simp: runningState_def Let_def split: sum.splits)
  have "Shard (fsm w) = shard \<and> RunShard (node (fsm w)) = ComputeNode_RunShard e dir GetShardProposal hst
          \<longrightarrow> (\<exists>w'. runningState w = Next (Some PublishingToVerifierState) w'
                  \<and> resultProposal (fsm w') = GetShardProposal (snd (docker_RunShard e shard dir hst))
                  \<and> entered w' = entered w @ [shardRunning]
                  \<and> errorMsg (fsm w') = errorMsg (fsm w))"
    using g by (auto simp: runningState_def Let_def)
  with r f g z t show ?thesis by (simp add: parse_decimal_Sprintf_d)
qed

theorem nonzero_exit_still_publishes_witness:
  "host_files (snd (docker_RunShard example_executor example_shard ''/results'' empty_host)) ''/results/exitCode''
     = Some (''1'', 420)
   \<and> fst (docker_RunShard example_executor example_shard ''/results'' empty_host)
     = Some ''exit code was not zero: 1''
   \<and> RunShard executor_node example_shard = Inr [1]
   \<and> goes_to (runningState (new_world example_shard executor_node (0::nat) []))
        (Some PublishingToVerifierState)"
proof -
  have "ContainerWait example_executor ''bacalhau-exec1-job1-0'' = WaitStatus 1 None"
    "(1 :: 64 word) \<noteq> 0"
    "docker_logs example_executor ''bacalhau-exec1-job1-0'' = Inr (''out'', ''err'')"
    "WriteFile_error example_executor (''/results'' @ ''/exitCode'') = None"
    "WriteFile_error example_executor (''/results'' @ ''/stdout'') = None"
    "WriteFile_error example_executor (''/results'' @ ''/stderr'') = None"
    by (simp_all add: example_executor_def)
  from nonzero_exit_still_publishes[OF example_RunShard_start(1) this, of example_proposal
         "new_world example_shard executor_node (0::nat) []"]
  show ?thesis
    by (simp add: results_perm Sprintf_d_def digits.simps digit_char_def new_world_def
          newStateMachine_def set_pending_def executor_node_def example_proposal_def)
qed

end
